theory Spec2Isabelle
  imports Complex_Main "HOL-Library.Sublist" "HOL-Library.List_Lexorder" "HOL-Library.Char_ord"
    "HOL-Library.Product_Lexorder"
begin

section \<open>Python floating-point arithmetic used by the image cost estimator\<close>

text \<open>
  \<^verbatim>\<open>token_count_for_image\<close> computes with Python floats (IEEE 754 binary64, round to nearest,
  ties to even). A finite float is a real number, so a float is represented by the number it
  denotes, and an arithmetic operation is the exact operation followed by \<open>rnd53\<close>, the
  rounding to 53 significant bits.
\<close>

function bitlen :: "int \<Rightarrow> int" where
  "bitlen n = (if n \<le> 0 then 0 else 1 + bitlen (n div 2))"
  by pat_completeness auto
termination
  by (relation "measure nat") auto

declare bitlen.simps [simp del]

definition ilog2 :: "real \<Rightarrow> int" where
  \<comment> \<open>\<open>\<lfloor>log\<^sub>2 q\<rfloor>\<close> for \<open>q > 0\<close>, from the bit length of an integer next to \<open>q\<close> or \<open>1 / q\<close>\<close>
  "ilog2 q = (if 1 \<le> q then bitlen \<lfloor>q\<rfloor> - 1 else - bitlen (\<lceil>1 / q\<rceil> - 1))"

definition round_half_even :: "real \<Rightarrow> int" where
  "round_half_even x =
     (let f = \<lfloor>x\<rfloor>; r = x - of_int f
      in if r < 1 / 2 then f
         else if 1 / 2 < r then f + 1
         else if even f then f else f + 1)"

definition rnd53_pos :: "real \<Rightarrow> real" where
  \<comment> \<open>the binary64 nearest to \<open>q > 0\<close>: a 53-bit integer significand times a power of two\<close>
  "rnd53_pos q = (let e = ilog2 q - 52 in of_int (round_half_even (q / 2 powi e)) * 2 powi e)"

definition rnd53 :: "real \<Rightarrow> real" where
  "rnd53 q = (if q = 0 then 0 else if 0 < q then rnd53_pos q else - rnd53_pos (- q))"

text \<open>
  The largest binary64 is \<open>2\<^sup>1\<^sup>0\<^sup>2\<^sup>4 - 2\<^sup>9\<^sup>7\<^sup>1\<close>; a magnitude of at least
  \<open>float_overflow\<close> rounds beyond it. Python raises \<^verbatim>\<open>OverflowError\<close> when an integer of that
  size is converted to a float or is the quotient of a true division, and a float product of
  that size is an infinity, which \<^verbatim>\<open>int()\<close> refuses with \<^verbatim>\<open>OverflowError\<close>.
  \<open>rnd53\<close> has no lower exponent bound: it is the binary64 result whenever that result is zero
  or at least \<open>2\<^sup>-\<^sup>1\<^sup>0\<^sup>2\<^sup>2\<close> in magnitude. In \<open>token_count_for_image\<close> a smaller quotient needs a
  divisor above \<open>2\<^sup>1\<^sup>0\<^sup>3\<^sup>1\<close>, and that divisor is one of the two dimensions multiplied next, whose
  conversion raises \<^verbatim>\<open>OverflowError\<close>.
\<close>

datatype error =
    ZeroDivisionError
  | OverflowError
  | TypeError
  | ModelEnvironmentError string
  | NoModelInfo string

definition bind_err :: "error + 'a \<Rightarrow> ('a \<Rightarrow> error + 'b) \<Rightarrow> error + 'b" where
  "bind_err r f = (case r of Inl e \<Rightarrow> Inl e | Inr x \<Rightarrow> f x)"

definition float_overflow :: real where
  "float_overflow = of_int (2 ^ 1024 - 2 ^ 970)"

definition float_of_int :: "int \<Rightarrow> error + real" where
  \<comment> \<open>the conversion of an \<^verbatim>\<open>int\<close> operand in \<^verbatim>\<open>int * float\<close>\<close>
  "float_of_int n =
     (if float_overflow \<le> \<bar>of_int n\<bar> then Inl OverflowError else Inr (rnd53 (of_int n)))"

definition int_truediv :: "int \<Rightarrow> int \<Rightarrow> error + real" where
  \<comment> \<open>\<^verbatim>\<open>a / b\<close> on two \<^verbatim>\<open>int\<close>s: the correctly rounded quotient\<close>
  "int_truediv a b =
     (if b = 0 then Inl ZeroDivisionError
      else if float_overflow \<le> \<bar>of_int a / of_int b\<bar> then Inl OverflowError
      else Inr (rnd53 (of_int a / of_int b)))"

definition int_mul_float :: "int \<Rightarrow> real \<Rightarrow> error + real" where
  \<comment> \<open>\<^verbatim>\<open>n * x\<close> with \<^verbatim>\<open>n\<close> an \<^verbatim>\<open>int\<close> and \<^verbatim>\<open>x\<close> a float; a result of magnitude
      \<open>float_overflow\<close> or more stands for an infinity\<close>
  "int_mul_float n x = bind_err (float_of_int n) (\<lambda>y. Inr (rnd53 (y * x)))"

definition py_int :: "real \<Rightarrow> error + int" where
  \<comment> \<open>\<^verbatim>\<open>int(x)\<close> on a float: truncation towards zero\<close>
  "py_int x =
     (if float_overflow \<le> \<bar>x\<bar> then Inl OverflowError
      else Inr (if 0 \<le> x then \<lfloor>x\<rfloor> else \<lceil>x\<rceil>))"

definition math_ceil :: "real \<Rightarrow> int" where
  "math_ceil x = \<lceil>x\<rceil>"

section \<open>The image token cost estimator\<close>

text \<open>
  \<^verbatim>\<open>Model.token_count_for_image(fname)\<close> reads \<^verbatim>\<open>width, height = self.get_image_size(fname)\<close>
  from the image decoder and computes on these two integers; the model takes the decoded pair.
\<close>

definition token_count_for_image :: "int \<times> int \<Rightarrow> error + int" where
  "token_count_for_image image_size =
     (let (width, height) = image_size;
          max_dimension = max width height
      in bind_err
           (if max_dimension > 2048 then
              bind_err (int_truediv 2048 max_dimension) (\<lambda>scale_factor.
              bind_err (bind_err (int_mul_float width scale_factor) py_int) (\<lambda>width.
              bind_err (bind_err (int_mul_float height scale_factor) py_int) (\<lambda>height.
              Inr (width, height))))
            else Inr (width, height))
           (\<lambda>(width, height).
              let min_dimension = min width height
              in bind_err (int_truediv 768 min_dimension) (\<lambda>scale_factor.
                 bind_err (bind_err (int_mul_float width scale_factor) py_int) (\<lambda>width.
                 bind_err (bind_err (int_mul_float height scale_factor) py_int) (\<lambda>height.
                 bind_err (int_truediv width 512) (\<lambda>qw.
                 bind_err (int_truediv height 512) (\<lambda>qh.
                 let tiles_width = math_ceil qw;
                     tiles_height = math_ceil qh;
                     num_tiles = tiles_width * tiles_height;
                     token_cost = num_tiles * 170 + 85
                 in Inr token_cost)))))))"

text \<open>
  The formula of the specification (section 4.4), in exact rational arithmetic: scale by
  \<open>2048 / max\<close> when the longer side exceeds 2048, then by \<open>768 / min\<close>, truncating each
  time; then count the 512-pixel tiles. It is undefined (\<open>None\<close>) when the shorter side has
  been truncated to zero.
\<close>

definition trunc_toward_zero :: "real \<Rightarrow> int" where
  "trunc_toward_zero x = (if 0 \<le> x then \<lfloor>x\<rfloor> else \<lceil>x\<rceil>)"

definition image_token_cost_spec :: "int \<Rightarrow> int \<Rightarrow> int option" where
  "image_token_cost_spec width height =
     (let m1 = max width height;
          (w1, h1) = (if m1 > 2048
                      then (trunc_toward_zero (of_int width * (2048 / of_int m1)),
                            trunc_toward_zero (of_int height * (2048 / of_int m1)))
                      else (width, height));
          m2 = min w1 h1
      in if m2 = 0 then None
         else let w2 = trunc_toward_zero (of_int w1 * (768 / of_int m2));
                  h2 = trunc_toward_zero (of_int h1 * (768 / of_int m2));
                  tiles = \<lceil>of_int w2 / (512 :: real)\<rceil> * \<lceil>of_int h2 / (512 :: real)\<rceil>
              in Some (tiles * 170 + 85))"

section \<open>External collaborators\<close>

text \<open>
  The module calls \<^verbatim>\<open>litellm\<close> (environment validation, model metadata, the model catalog)
  and \<^verbatim>\<open>difflib\<close>. Neither is part of the repository; both are parameters of the model.
  A metadata bag maps keys to JSON scalars. An exception raised by \<^verbatim>\<open>litellm.get_model_info\<close>
  is an instance of \<^verbatim>\<open>Exception\<close>, represented by its text.
\<close>

datatype py_value = PyNone | PyBool bool | PyInt int | PyFloat real | PyStr string

type_synonym model_info = "string \<rightharpoonup> py_value"

record env_report =
  missing_keys :: "string list"
  keys_in_environment :: bool

record litellm =
  validate_environment :: "string \<Rightarrow> env_report"
  get_model_info :: "string \<Rightarrow> string + model_info"
  model_cost :: "(string \<times> model_info) list"

text \<open>
  \<^verbatim>\<open>difflib.SequenceMatcher\<close> scores a candidate \<open>x\<close> (sequence 1) against the word (sequence 2)
  with \<^verbatim>\<open>ratio()\<close> and two cheaper upper bounds; the three scores are floats.
\<close>

record difflib =
  real_quick_ratio :: "string \<Rightarrow> string \<Rightarrow> real"
  quick_ratio :: "string \<Rightarrow> string \<Rightarrow> real"
  ratio :: "string \<Rightarrow> string \<Rightarrow> real"

definition py_less_int :: "py_value \<Rightarrow> int \<Rightarrow> error + bool" where
  \<comment> \<open>\<^verbatim>\<open>v < n\<close> for an \<^verbatim>\<open>int\<close> \<open>n\<close>: numbers compare by value, \<^verbatim>\<open>None\<close> and strings raise\<close>
  "py_less_int v n =
     (case v of
        PyNone \<Rightarrow> Inl TypeError
      | PyBool b \<Rightarrow> Inr ((if b then 1 else 0) < n)
      | PyInt i \<Rightarrow> Inr (i < n)
      | PyFloat x \<Rightarrow> Inr (x < of_int n)
      | PyStr s \<Rightarrow> Inl TypeError)"

section \<open>The fuzzy name matcher\<close>

text \<open>
  \<^verbatim>\<open>difflib.get_close_matches(word, possibilities, n, cutoff)\<close> of the Python standard library,
  after its two argument checks (\<open>n > 0\<close> and \<open>0.0 \<le> cutoff \<le> 1.0\<close>, both true at the only call
  below): collect \<^verbatim>\<open>(s.ratio(), x)\<close> for every candidate that passes the three score tests, keep
  the \<open>n\<close> largest pairs with \<^verbatim>\<open>heapq.nlargest\<close>, that is, the first \<open>n\<close> of the pairs sorted in
  descending order, and strip the scores. Pairs compare lexicographically, strings by code
  point.
\<close>

definition get_close_matches ::
  "difflib \<Rightarrow> string \<Rightarrow> string list \<Rightarrow> nat \<Rightarrow> real \<Rightarrow> string list" where
  "get_close_matches D word possibilities n cutoff =
     (let result = map (\<lambda>x. (ratio D x word, x))
                     (filter (\<lambda>x. cutoff \<le> real_quick_ratio D x word
                                \<and> cutoff \<le> quick_ratio D x word
                                \<and> cutoff \<le> ratio D x word) possibilities);
          result = take n (rev (sort result))
      in map snd result)"

definition fuzzy_match_models :: "litellm \<Rightarrow> difflib \<Rightarrow> string \<Rightarrow> string list" where
  "fuzzy_match_models L D name =
     (let models = map fst (model_cost L)
      in if name \<in> set models then [name]
         else let matching_models = filter (\<lambda>model. sublist name model) models
              in if matching_models = []
                 then get_close_matches D name models 3 (rnd53 (8 / 10))
                 else matching_models)"

definition check_model_name :: "litellm \<Rightarrow> difflib \<Rightarrow> string \<Rightarrow> string" where
  "check_model_name L D model =
     (let res = ''Unknown model '' @ model;
          possible_matches = fuzzy_match_models L D model
      in if possible_matches \<noteq> []
         then res @ '', did you mean one of these?''
                @ concat (map (\<lambda>match. CHR 0x0A # ''- '' @ match) possible_matches)
         else res)"

section \<open>Model settings\<close>

text \<open>
  \<^verbatim>\<open>ModelSettings\<close> is a dataclass; its constructor takes the fields in declaration order:
  name, edit format, weak model name, use repo map, send undo reply, accepts images. The
  entries of \<^verbatim>\<open>MODEL_SETTINGS\<close> are written with the dataclass defaults filled in.
\<close>

datatype ModelSettings =
  ModelSettings (ms_name: string) (ms_edit_format: string) (ms_weak_model_name: "string option")
    (ms_use_repo_map: bool) (ms_send_undo_reply: bool) (ms_accepts_images: bool)

definition MODEL_SETTINGS :: "ModelSettings list" where
  "MODEL_SETTINGS =
     [ModelSettings ''gpt-3.5-turbo-0125'' ''whole'' (Some ''gpt-3.5-turbo'') False False False,
      ModelSettings ''gpt-3.5-turbo-1106'' ''whole'' (Some ''gpt-3.5-turbo'') False False False,
      ModelSettings ''gpt-3.5-turbo-0613'' ''whole'' (Some ''gpt-3.5-turbo'') False False False,
      ModelSettings ''gpt-3.5-turbo-16k-0613'' ''whole'' (Some ''gpt-3.5-turbo'') False False False,
      ModelSettings ''gpt-4-turbo-2024-04-09'' ''udiff'' (Some ''gpt-3.5-turbo'') True True True,
      ModelSettings ''gpt-4-turbo'' ''udiff'' (Some ''gpt-3.5-turbo'') True True True,
      ModelSettings ''gpt-4-0125-preview'' ''udiff'' (Some ''gpt-3.5-turbo'') True True False,
      ModelSettings ''gpt-4-1106-preview'' ''udiff'' (Some ''gpt-3.5-turbo'') True True False,
      ModelSettings ''gpt-4-vision-preview'' ''diff'' (Some ''gpt-3.5-turbo'') True True True,
      ModelSettings ''gpt-4-0613'' ''diff'' (Some ''gpt-3.5-turbo'') True True False,
      ModelSettings ''gpt-4-32k-0613'' ''diff'' (Some ''gpt-3.5-turbo'') True True False,
      ModelSettings ''claude-3-opus-20240229'' ''diff'' (Some ''claude-3-haiku-20240307'')
        True True False,
      ModelSettings ''claude-3-sonnet-20240229'' ''whole'' (Some ''claude-3-haiku-20240307'')
        False False False,
      ModelSettings ''command-r-plus'' ''whole'' (Some ''command-r-plus'') True True False,
      ModelSettings ''groq/llama3-70b-8192'' ''diff'' (Some ''groq/llama3-8b-8192'')
        True True False]"

section \<open>The model class\<close>

text \<open>
  A \<^verbatim>\<open>Model\<close> instance lives in the object store and is named by its address, so that
  \<^verbatim>\<open>self.weak_model = self\<close> is an alias and not a copy. The store is a list of objects, the
  address of an object is its index, and a new object is appended. The interpreter state
  carries the store and the lines printed so far.
\<close>

record Model =
  name :: "string option"
  edit_format :: string
  use_repo_map :: bool
  send_undo_reply :: bool
  accepts_images :: bool
  weak_model_name :: "string option"
  max_chat_history_tokens :: int
  weak_model :: "nat option"
  info :: model_info

record pystate =
  heap :: "Model list"
  stdout :: "string list"

text \<open>
  The class attributes, which a fresh instance reads until \<^verbatim>\<open>__init__\<close> assigns its own.
  \<^verbatim>\<open>info\<close> has no class attribute and is assigned before it is first read.
\<close>

definition Model_class :: Model where
  "Model_class =
     \<lparr>name = None, edit_format = ''whole'', use_repo_map = False, send_undo_reply = False,
      accepts_images = False, weak_model_name = None, max_chat_history_tokens = 1024,
      weak_model = None, info = Map.empty\<rparr>"

text \<open>The value of the \<^verbatim>\<open>weak_model\<close> argument: \<^verbatim>\<open>None\<close>, \<^verbatim>\<open>False\<close> or a string.\<close>

datatype weak_model_arg = WeakNone | WeakFalse | WeakName string

fun copy_fields :: "ModelSettings \<Rightarrow> Model \<Rightarrow> Model" where
  \<comment> \<open>\<^verbatim>\<open>for field in fields(ModelSettings): setattr(self, field.name, getattr(ms, field.name))\<close>\<close>
  "copy_fields (ModelSettings n ef wmn urm sur ai) self =
     self\<lparr>name := Some n, edit_format := ef, weak_model_name := wmn, use_repo_map := urm,
          send_undo_reply := sur, accepts_images := ai\<rparr>"

definition configure_model_settings :: "Model \<Rightarrow> string \<Rightarrow> Model" where
  "configure_model_settings self model =
     (case find (\<lambda>ms. model = ms_name ms) MODEL_SETTINGS of
        Some ms \<Rightarrow> copy_fields ms self
      | None \<Rightarrow>
          if sublist ''llama3'' model \<and> sublist ''70b'' model then
            self\<lparr>edit_format := ''diff'', use_repo_map := True, send_undo_reply := True\<rparr>
          else if sublist ''gpt-4-turbo'' model
                  \<or> (sublist ''gpt-4-'' model \<and> sublist ''-preview'' model) then
            self\<lparr>edit_format := ''udiff'', use_repo_map := True, send_undo_reply := True\<rparr>
          else if sublist ''gpt-4'' model \<or> sublist ''claude-2'' model
                  \<or> sublist ''claude-3-opus'' model then
            self\<lparr>edit_format := ''diff'', use_repo_map := True, send_undo_reply := True\<rparr>
          else if edit_format self = ''diff'' then self\<lparr>use_repo_map := True\<rparr>
          else self)"

definition environment_error_message :: "string \<Rightarrow> string list \<Rightarrow> string" where
  \<comment> \<open>the text built in \<^verbatim>\<open>__init__\<close> before \<^verbatim>\<open>raise ModelEnvironmentError(res)\<close>\<close>
  "environment_error_message model keys =
     ''To use model '' @ model @ '', please set these environment variables:''
       @ concat (map (\<lambda>key. ''- '' @ key) keys)"

text \<open>
  \<^verbatim>\<open>Model.__init__(self, model, weak_model, require_model_info, validate_environment)\<close> and
  \<^verbatim>\<open>Model.get_weak_model(self, provided_weak_model_name, require_model_info)\<close>. The constructor
  returns the address of the new instance or the exception raised; \<open>weak\<close> is the argument
  \<^verbatim>\<open>weak_model\<close>. The instance is allocated
  first; its attributes are collected in \<open>obj\<close> and written to the store when the constructor
  returns. \<^verbatim>\<open>get_weak_model\<close> constructs the weak model with \<^verbatim>\<open>weak_model=False\<close>,
  \<^verbatim>\<open>require_model_info\<close> passed on and \<^verbatim>\<open>validate_environment\<close> left at its default
  \<^verbatim>\<open>True\<close>.
\<close>

function Model_init ::
    "litellm \<Rightarrow> difflib \<Rightarrow> string \<Rightarrow> weak_model_arg \<Rightarrow> bool \<Rightarrow> bool \<Rightarrow> pystate
      \<Rightarrow> (error + nat) \<times> pystate"
  and get_weak_model ::
    "litellm \<Rightarrow> difflib \<Rightarrow> nat \<Rightarrow> Model \<Rightarrow> weak_model_arg \<Rightarrow> bool \<Rightarrow> pystate
      \<Rightarrow> (error + Model) \<times> pystate"
where
  "Model_init L D model weak require_model_info validate_env st =
     (let self = length (heap st);
          obj = Model_class\<lparr>name := Some model\<rparr>;
          st = st\<lparr>heap := heap st @ [obj]\<rparr>;
          res = validate_environment L model
      in if missing_keys res \<noteq> [] \<and> validate_env then
           (Inl (ModelEnvironmentError (environment_error_message model (missing_keys res))), st)
         else
           let st = (if missing_keys res = [] \<and> \<not> keys_in_environment res
                     then st\<lparr>stdout := stdout st
                            @ [''Unable to check environment variables for model '' @ model]\<rparr>
                     else st)
           in case (case get_model_info L model of
                      Inr i \<Rightarrow> Inr i
                    | Inl e \<Rightarrow> if require_model_info
                               then Inl (NoModelInfo (check_model_name L D model))
                               else Inr Map.empty) of
                Inl err \<Rightarrow> (Inl err, st)
              | Inr i \<Rightarrow>
                  let obj = obj\<lparr>info := i\<rparr>
                  in case py_less_int (case i ''max_input_tokens'' of None \<Rightarrow> PyInt 0 | Some v \<Rightarrow> v)
                            (32 * 1024) of
                       Inl err \<Rightarrow> (Inl err, st)
                     | Inr small \<Rightarrow>
                         let obj = obj\<lparr>max_chat_history_tokens :=
                                         (if small then 1024 else 2 * 1024)\<rparr>;
                             obj = configure_model_settings obj model
                         in if weak = WeakFalse then
                              (Inr self,
                               st\<lparr>heap := (heap st)[self := obj\<lparr>weak_model_name := None\<rparr>]\<rparr>)
                            else
                              case get_weak_model L D self obj weak require_model_info st of
                                (Inl err, st) \<Rightarrow> (Inl err, st)
                              | (Inr obj, st) \<Rightarrow>
                                  (Inr self, st\<lparr>heap := (heap st)[self := obj]\<rparr>))"
| "get_weak_model L D self obj provided_weak_model_name require_model_info st =
     (let obj = (case provided_weak_model_name of
                   WeakName s \<Rightarrow> if s \<noteq> [] then obj\<lparr>weak_model_name := Some s\<rparr> else obj
                 | _ \<Rightarrow> obj)
      in case weak_model_name obj of
           None \<Rightarrow> (Inr (obj\<lparr>weak_model := Some self\<rparr>), st)
         | Some w \<Rightarrow>
             if w = [] then (Inr (obj\<lparr>weak_model := Some self\<rparr>), st)
             else if Some w = name obj then (Inr (obj\<lparr>weak_model := Some self\<rparr>), st)
             else case Model_init L D w WeakFalse require_model_info True st of
                    (Inl err, st) \<Rightarrow> (Inl err, st)
                  | (Inr r, st) \<Rightarrow> (Inr (obj\<lparr>weak_model := Some r\<rparr>), st))"
  by pat_completeness auto
termination
  by (relation "measure (\<lambda>x. case x of
                   Inl (L, D, model, weak, rest) \<Rightarrow> (if weak = WeakFalse then 0 else 2)
                 | Inr y \<Rightarrow> 1)") auto

declare Model_init.simps [simp del] get_weak_model.simps [simp del]

text \<open>
  The first part of \<^verbatim>\<open>__init__\<close>, up to and including the call of
  \<^verbatim>\<open>configure_model_settings\<close>, as a function of its own: it makes no recursive call. The
  theorems about the constructor are stated through it; \<open>Model_init_unfold\<close> below relates
  the two.
\<close>

definition init_prelude ::
  "litellm \<Rightarrow> difflib \<Rightarrow> string \<Rightarrow> bool \<Rightarrow> bool \<Rightarrow> pystate \<Rightarrow> (error + Model) \<times> pystate" where
  "init_prelude L D model require_model_info validate_env st =
     (let obj = Model_class\<lparr>name := Some model\<rparr>;
          st = st\<lparr>heap := heap st @ [obj]\<rparr>;
          res = validate_environment L model
      in if missing_keys res \<noteq> [] \<and> validate_env then
           (Inl (ModelEnvironmentError (environment_error_message model (missing_keys res))), st)
         else
           let st = (if missing_keys res = [] \<and> \<not> keys_in_environment res
                     then st\<lparr>stdout := stdout st
                            @ [''Unable to check environment variables for model '' @ model]\<rparr>
                     else st)
           in case (case get_model_info L model of
                      Inr i \<Rightarrow> Inr i
                    | Inl e \<Rightarrow> if require_model_info
                               then Inl (NoModelInfo (check_model_name L D model))
                               else Inr Map.empty) of
                Inl err \<Rightarrow> (Inl err, st)
              | Inr i \<Rightarrow>
                  let obj = obj\<lparr>info := i\<rparr>
                  in case py_less_int (case i ''max_input_tokens'' of None \<Rightarrow> PyInt 0 | Some v \<Rightarrow> v)
                            (32 * 1024) of
                       Inl err \<Rightarrow> (Inl err, st)
                     | Inr small \<Rightarrow>
                         let obj = obj\<lparr>max_chat_history_tokens :=
                                         (if small then 1024 else 2 * 1024)\<rparr>
                         in (Inr (configure_model_settings obj model), st))"

text \<open>The three substring rules of \<^verbatim>\<open>configure_model_settings\<close>, named for the theorems.\<close>

definition rule2 :: "string \<Rightarrow> bool" where
  "rule2 model \<longleftrightarrow> sublist ''llama3'' model \<and> sublist ''70b'' model"

definition rule3 :: "string \<Rightarrow> bool" where
  "rule3 model \<longleftrightarrow>
     sublist ''gpt-4-turbo'' model \<or> (sublist ''gpt-4-'' model \<and> sublist ''-preview'' model)"

definition rule4 :: "string \<Rightarrow> bool" where
  "rule4 model \<longleftrightarrow>
     sublist ''gpt-4'' model \<or> sublist ''claude-2'' model \<or> sublist ''claude-3-opus'' model"

text \<open>
  The weak model name in effect in \<^verbatim>\<open>get_weak_model\<close> after its first statement: a supplied
  name that is true as a condition (a non-empty string) replaces the preset; \<^verbatim>\<open>None\<close> and the
  empty string leave it.
\<close>

definition overridden_weak_model_name :: "weak_model_arg \<Rightarrow> string option \<Rightarrow> string option" where
  "overridden_weak_model_name provided preset =
     (case provided of
        WeakName s \<Rightarrow> if s \<noteq> [] then Some s else preset
      | _ \<Rightarrow> preset)"

section \<open>Example environments\<close>

text \<open>
  Concrete collaborators at which the theorems are instantiated. \<open>char_ratio\<close> scores two
  strings by the number of characters they share, counted with multiplicity:
  \<open>2 * m / (|a| + |b|)\<close> as a float.
\<close>

fun common_chars :: "string \<Rightarrow> string \<Rightarrow> nat" where
  "common_chars [] ys = 0"
| "common_chars (x # xs) ys =
     (if x \<in> set ys then Suc (common_chars xs (remove1 x ys)) else common_chars xs ys)"

definition char_ratio :: "string \<Rightarrow> string \<Rightarrow> real" where
  "char_ratio a b =
     (if a = [] \<and> b = [] then 1
      else rnd53 (2 * real (common_chars a b) / real (length a + length b)))"

definition example_difflib :: difflib where
  "example_difflib =
     \<lparr>real_quick_ratio = char_ratio, quick_ratio = char_ratio, ratio = char_ratio\<rparr>"

definition example_catalog :: "(string \<times> model_info) list" where
  "example_catalog =
     [(''gpt-4'', [''max_input_tokens'' \<mapsto> PyInt 8192]),
      (''gpt-4-0613'', [''max_input_tokens'' \<mapsto> PyInt 8192]),
      (''gpt-3.5-turbo'', [''max_input_tokens'' \<mapsto> PyInt 16385]),
      (''claude-3-opus-20240229'', [''max_input_tokens'' \<mapsto> PyInt 200000])]"

text \<open>All keys are set and every catalogued model has metadata.\<close>

definition example_litellm :: litellm where
  "example_litellm =
     \<lparr>validate_environment = (\<lambda>model. \<lparr>missing_keys = [], keys_in_environment = True\<rparr>),
      get_model_info =
        (\<lambda>model. case map_of example_catalog model of
                    Some i \<Rightarrow> Inr i
                  | None \<Rightarrow> Inl ''This model is not mapped yet''),
      model_cost = example_catalog\<rparr>"

text \<open>The same provider when no API key is set in the environment.\<close>

definition example_litellm_no_keys :: litellm where
  "example_litellm_no_keys =
     example_litellm
       \<lparr>validate_environment :=
          (\<lambda>model. \<lparr>missing_keys = [''OPENAI_API_KEY''], keys_in_environment = False\<rparr>)\<rparr>"

text \<open>A catalog in which four keys contain \<^verbatim>\<open>gpt4\<close> and none is \<^verbatim>\<open>gpt4\<close>.\<close>

definition example_litellm_gpt4_keys :: litellm where
  "example_litellm_gpt4_keys =
     example_litellm
       \<lparr>model_cost :=
          [(''gpt-4'', Map.empty), (''azure/gpt4'', Map.empty), (''azure/gpt4-32k'', Map.empty),
           (''custom/gpt4-turbo'', Map.empty), (''custom/gpt4-vision'', Map.empty)]\<rparr>"

definition empty_state :: pystate where
  "empty_state = \<lparr>heap = [], stdout = []\<rparr>"

section \<open>Evaluation rules\<close>

lemma bitlen_0 [simp]: "bitlen 0 = 0"
  by (simp add: bitlen.simps)

lemma bitlen_1 [simp]: "bitlen 1 = 1"
  by (simp add: bitlen.simps)

lemma bitlen_Bit0 [simp]: "bitlen (numeral (Num.Bit0 n)) = 1 + bitlen (numeral n)"
  by (subst bitlen.simps) simp

lemma bitlen_Bit1 [simp]: "bitlen (numeral (Num.Bit1 n)) = 1 + bitlen (numeral n)"
  by (subst bitlen.simps) simp

lemmas float_eval = rnd53_def rnd53_pos_def ilog2_def round_half_even_def
  float_overflow_def float_of_int_def int_truediv_def int_mul_float_def py_int_def math_ceil_def
  bind_err_def

lemmas model_eval = Model_init.simps get_weak_model.simps configure_model_settings_def
  MODEL_SETTINGS_def Model_class_def py_less_int_def environment_error_message_def
  sublist_code prefix_code

section \<open>Rounding never loses more than one part in \<open>2\<^sup>5\<^sup>2\<close>\<close>

lemma bitlen_nonneg: "0 \<le> bitlen n"
  by (induction n rule: bitlen.induct) (subst bitlen.simps, simp)

lemma bitlen_upper: "0 \<le> n \<Longrightarrow> n < 2 ^ nat (bitlen n)"
proof (induction n rule: bitlen.induct)
  case (1 n)
  show ?case
  proof (cases "n \<le> 0")
    case True
    with "1.prems" show ?thesis by (subst bitlen.simps) simp
  next
    case False
    then have ih: "n div 2 < 2 ^ nat (bitlen (n div 2))"
      using "1.IH" by simp
    have "nat (1 + bitlen (n div 2)) = Suc (nat (bitlen (n div 2)))"
      using bitlen_nonneg [of "n div 2"] by simp
    moreover have "n < 2 * 2 ^ nat (bitlen (n div 2))"
      using ih by linarith
    ultimately show ?thesis
      using False by (subst bitlen.simps) simp
  qed
qed

lemma bitlen_lower: "1 \<le> n \<Longrightarrow> 2 ^ nat (bitlen n - 1) \<le> n"
proof (induction n rule: bitlen.induct)
  case (1 n)
  show ?case
  proof (cases "n = 1")
    case True
    then show ?thesis by (subst bitlen.simps, subst bitlen.simps) simp
  next
    case False
    with "1.prems" have n2: "1 \<le> n div 2" by linarith
    then have ih: "2 ^ nat (bitlen (n div 2) - 1) \<le> n div 2"
      using "1.IH" "1.prems" by simp
    have pos: "1 \<le> bitlen (n div 2)"
      using n2 by (subst bitlen.simps) (simp add: bitlen_nonneg)
    have eq: "bitlen n = 1 + bitlen (n div 2)"
      using "1.prems" by (subst bitlen.simps) simp
    have "nat (bitlen n - 1) = Suc (nat (bitlen (n div 2) - 1))"
      using pos eq by simp
    moreover have "2 * 2 ^ nat (bitlen (n div 2) - 1) \<le> n"
      using ih by linarith
    ultimately show ?thesis by simp
  qed
qed

lemma ilog2_lower:
  assumes "0 < q"
  shows "2 powi ilog2 q \<le> q"
proof (cases "1 \<le> q")
  case True
  then have f1: "1 \<le> \<lfloor>q\<rfloor>" by linarith
  have nn: "0 \<le> bitlen \<lfloor>q\<rfloor> - 1"
    using f1 by (subst bitlen.simps) (simp add: bitlen_nonneg)
  have "(2::real) powi (bitlen \<lfloor>q\<rfloor> - 1) = 2 ^ nat (bitlen \<lfloor>q\<rfloor> - 1)"
    using nn by (simp add: power_int_def)
  also have "\<dots> = of_int (2 ^ nat (bitlen \<lfloor>q\<rfloor> - 1))" by simp
  also have "\<dots> \<le> of_int \<lfloor>q\<rfloor>"
    using bitlen_lower [OF f1] by (simp only: of_int_le_iff)
  also have "\<dots> \<le> q" by simp
  finally show ?thesis using True by (simp add: ilog2_def)
next
  case False
  define c where "c = \<lceil>1 / q\<rceil>"
  define k where "k = bitlen (c - 1)"
  have r1: "1 < 1 / q" using False assms by simp
  then have c2: "0 \<le> c - 1" unfolding c_def by linarith
  have "c - 1 < 2 ^ nat k" unfolding k_def by (rule bitlen_upper [OF c2])
  then have "c \<le> 2 ^ nat k" by linarith
  then have "(of_int c :: real) \<le> of_int (2 ^ nat k)" by (simp only: of_int_le_iff)
  moreover have "(of_int (2 ^ nat k) :: real) = 2 ^ nat k" by simp
  moreover have "1 / q \<le> of_int c" unfolding c_def by (rule le_of_int_ceiling)
  ultimately have "1 / q \<le> 2 ^ nat k" by linarith
  then have "1 \<le> q * 2 ^ nat k"
    using assms by (simp add: field_simps)
  then have "1 / 2 ^ nat k \<le> q"
    by (simp add: field_simps)
  moreover have "(2::real) powi (- k) = 1 / 2 ^ nat k"
    using bitlen_nonneg [of "c - 1"] unfolding k_def
    by (simp add: power_int_def field_simps)
  ultimately show ?thesis
    using False by (simp add: ilog2_def c_def k_def)
qed

lemma round_half_even_ge_floor: "\<lfloor>x\<rfloor> \<le> round_half_even x"
  by (simp add: round_half_even_def Let_def)

lemma rnd53_pos_lower:
  assumes "0 < q"
  shows "q * (1 - 1 / 2 ^ 52) \<le> rnd53_pos q"
proof -
  define e where "e = ilog2 q - 52"
  define s :: real where "s = 2 powi e"
  have spos: "0 < s" unfolding s_def by simp
  have "s = 2 powi ilog2 q / 2 ^ 52"
    unfolding s_def e_def by (simp add: power_int_diff)
  then have s_le: "s \<le> q / 2 ^ 52"
    using ilog2_lower [OF assms] by (simp add: divide_right_mono)
  have "q / s - 1 \<le> of_int \<lfloor>q / s\<rfloor>" by linarith
  also have "\<dots> \<le> of_int (round_half_even (q / s))"
    using round_half_even_ge_floor [of "q / s"] by (simp only: of_int_le_iff)
  finally have a: "q / s - 1 \<le> of_int (round_half_even (q / s))" .
  have "(q / s - 1) * s \<le> of_int (round_half_even (q / s)) * s"
    by (rule mult_right_mono [OF a]) (use spos in simp)
  moreover have "(q / s - 1) * s = q - s"
    using spos by (simp add: field_simps)
  moreover have "rnd53_pos q = of_int (round_half_even (q / s)) * s"
    by (simp add: rnd53_pos_def Let_def s_def e_def)
  ultimately have "q - s \<le> rnd53_pos q" by linarith
  with s_le show ?thesis by (simp add: field_simps)
qed

lemma rnd53_lower: "0 \<le> q \<Longrightarrow> q * (1 - 1 / 2 ^ 52) \<le> rnd53 q"
  using rnd53_pos_lower [of q] by (cases "q = 0") (simp_all add: rnd53_def)

lemma rnd53_nonneg: "0 \<le> q \<Longrightarrow> 0 \<le> rnd53 q"
proof -
  assume q: "0 \<le> q"
  then have "0 \<le> q * (1 - 1 / 2 ^ 52)" by simp
  with rnd53_lower [OF q] show ?thesis by linarith
qed

lemma scale_product_lower:
  assumes m: "1 \<le> m" and d: "m \<le> d"
  shows "767 \<le> rnd53 (rnd53 (of_int d) * rnd53 (768 / of_int m))"
proof -
  define u :: real where "u = 1 - 1 / 2 ^ 52"
  have u0: "0 \<le> u" unfolding u_def by simp
  have mpos: "0 < (of_int m :: real)" and dpos: "0 \<le> (of_int d :: real)"
    using m d by simp_all
  have md: "(of_int m :: real) \<le> of_int d" using d by simp
  have y: "of_int d * u \<le> rnd53 (of_int d)"
    unfolding u_def by (rule rnd53_lower [OF dpos])
  have sf: "768 / of_int m * u \<le> rnd53 (768 / of_int m)"
    unfolding u_def using mpos by (intro rnd53_lower) simp
  have ratio: "768 \<le> of_int d * (768 / (of_int m :: real))"
    using mpos md by (simp add: field_simps)
  have "768 * (u * u) \<le> of_int d * (768 / of_int m) * (u * u)"
    by (rule mult_right_mono [OF ratio]) (use u0 in simp)
  also have "\<dots> = (of_int d * u) * (768 / of_int m * u)" by simp
  also have "\<dots> \<le> rnd53 (of_int d) * rnd53 (768 / of_int m)"
  proof (rule mult_mono [OF y sf])
    show "0 \<le> rnd53 (of_int d)" by (rule rnd53_nonneg [OF dpos])
    show "0 \<le> 768 / of_int m * u" using u0 mpos by simp
  qed
  finally have prod: "768 * (u * u) \<le> rnd53 (of_int d) * rnd53 (768 / of_int m)" .
  then have pnn: "0 \<le> rnd53 (of_int d) * rnd53 (768 / of_int m)"
    using u0 by (smt (verit) mult_nonneg_nonneg)
  have "768 * (u * u) * u \<le> rnd53 (of_int d) * rnd53 (768 / of_int m) * u"
    by (rule mult_right_mono [OF prod u0])
  also have "\<dots> \<le> rnd53 (rnd53 (of_int d) * rnd53 (768 / of_int m))"
    unfolding u_def by (rule rnd53_lower [OF pnn])
  finally have "768 * (u * u) * u \<le> rnd53 (rnd53 (of_int d) * rnd53 (768 / of_int m))" .
  moreover have "(767::real) \<le> 768 * (u * u) * u"
    unfolding u_def by simp
  ultimately show ?thesis by linarith
qed

lemma scaled_ge_767:
  assumes "1 \<le> m" and "m \<le> d"
    and "int_truediv 768 m = Inr scale_factor"
    and "int_mul_float d scale_factor = Inr p"
    and "py_int p = Inr d'"
  shows "767 \<le> d'"
proof -
  have sf: "scale_factor = rnd53 (768 / of_int m)"
    using assms(1,3) by (simp add: int_truediv_def split: if_splits)
  have p: "p = rnd53 (rnd53 (of_int d) * scale_factor)"
    using assms(4) by (simp add: int_mul_float_def float_of_int_def bind_err_def split: if_splits)
  have "767 \<le> p"
    unfolding p sf by (rule scale_product_lower [OF assms(1,2)])
  moreover from this have "d' = \<lfloor>p\<rfloor>"
    using assms(5) by (simp add: py_int_def split: if_splits)
  ultimately show ?thesis by linarith
qed

lemma tiles_ge_2:
  assumes "767 \<le> d" and "int_truediv d 512 = Inr q"
  shows "2 \<le> math_ceil q"
proof -
  have q: "q = rnd53 (of_int d / 512)"
    using assms(2) by (simp add: int_truediv_def split: if_splits)
  have "(767 :: real) \<le> of_int d" using assms(1) by simp
  then have x: "(767 / 512 :: real) \<le> of_int d / 512" by simp
  then have "0 \<le> (of_int d / 512 :: real)" by linarith
  then have "of_int d / 512 * (1 - 1 / 2 ^ 52) \<le> q"
    unfolding q by (rule rnd53_lower)
  moreover have "767 / 512 * (1 - 1 / 2 ^ 52) \<le> of_int d / 512 * (1 - 1 / 2 ^ 52 :: real)"
    by (rule mult_right_mono [OF x]) simp
  moreover have "(1 :: real) < 767 / 512 * (1 - 1 / 2 ^ 52)" by simp
  ultimately have "1 < q" by linarith
  then show ?thesis unfolding math_ceil_def by linarith
qed

lemma downscaled_nonneg:
  assumes "0 \<le> d" and "0 < m"
    and "int_truediv 2048 m = Inr scale_factor"
    and "int_mul_float d scale_factor = Inr p"
    and "py_int p = Inr d'"
  shows "0 \<le> d'"
proof -
  have sf: "scale_factor = rnd53 (2048 / of_int m)"
    using assms(2,3) by (simp add: int_truediv_def split: if_splits)
  have "0 \<le> (2048 / of_int m :: real)" using assms(2) by simp
  then have sf0: "0 \<le> scale_factor" unfolding sf by (rule rnd53_nonneg)
  have p: "p = rnd53 (rnd53 (of_int d) * scale_factor)"
    using assms(4) by (simp add: int_mul_float_def float_of_int_def bind_err_def split: if_splits)
  have "0 \<le> (of_int d :: real)" using assms(1) by simp
  then have "0 \<le> rnd53 (of_int d)" by (rule rnd53_nonneg)
  then have "0 \<le> rnd53 (of_int d) * scale_factor" using sf0 by (rule mult_nonneg_nonneg)
  then have "0 \<le> p" unfolding p by (rule rnd53_nonneg)
  then have "d' = \<lfloor>p\<rfloor>" using assms(5) by (simp add: py_int_def split: if_splits)
  with \<open>0 \<le> p\<close> show ?thesis by simp
qed

section \<open>The image token cost\<close>

text \<open>
  The two worked examples of the specification: a 2048 by 2048 image costs 765 tokens and a
  4096 by 2048 image costs 1105 tokens.
\<close>

lemma token_count_for_image_2048_2048: "token_count_for_image (2048, 2048) = Inr 765"
  by (simp add: token_count_for_image_def float_eval)

lemma token_count_for_image_4096_2048: "token_count_for_image (4096, 2048) = Inr 1105"
  by (simp add: token_count_for_image_def float_eval)

text \<open>
  C1. The claim is that for all positive dimensions the estimator returns the value of the
  four-step formula (downscale to fit 2048, rescale the shorter side to 768, count 512-pixel
  tiles, 170 tokens a tile plus 85). For a 2 by 2215 image the formula scales the longer
  side to \<open>2215 * (2048 / 2215) = 2048\<close> pixels, while the float product
  \<^verbatim>\<open>2215 * (2048 / 2215)\<close> is \<open>2047.9999999999998\<close> and is truncated to 2047. The shorter side
  becomes 1 pixel either way, so the second scale factor is 768: the formula counts
  \<open>2 * 3072\<close> tiles and the estimator \<open>2 * 3071\<close>.
\<close>

theorem token_count_for_image_off_formula:
  "token_count_for_image (2, 2215) = Inr 1044225
   \<and> image_token_cost_spec 2 2215 = Some 1044565"
proof
  show "token_count_for_image (2, 2215) = Inr 1044225"
    by (simp add: token_count_for_image_def float_eval)
  show "image_token_cost_spec 2 2215 = Some 1044565"
    by (simp add: image_token_cost_spec_def trunc_toward_zero_def)
qed

text \<open>
  C2. The claim is that the estimator returns an integer for every width and height of at least
  1, the division by the shorter side included. A 1 by 4096 image is scaled by
  \<open>2048 / 4096 = 0.5\<close>; its width becomes \<^verbatim>\<open>int(0.5) = 0\<close>, and \<^verbatim>\<open>768 / 0\<close> raises
  \<^verbatim>\<open>ZeroDivisionError\<close>.
\<close>

theorem token_count_for_image_zero_division:
  "token_count_for_image (1, 4096) = Inl ZeroDivisionError"
  by (simp add: token_count_for_image_def float_eval)

lemma bind_err_Inr: "bind_err r f = Inr y \<longleftrightarrow> (\<exists>x. r = Inr x \<and> f x = Inr y)"
  by (cases r) (simp_all add: bind_err_def)

lemma token_count_for_image_Inr:
  assumes "token_count_for_image (width, height) = Inr cost"
  obtains w h scale_factor pw w' ph h' qw qh where
    "if max width height > 2048
     then \<exists>sf1 p1 p2. int_truediv 2048 (max width height) = Inr sf1
            \<and> int_mul_float width sf1 = Inr p1 \<and> py_int p1 = Inr w
            \<and> int_mul_float height sf1 = Inr p2 \<and> py_int p2 = Inr h
     else w = width \<and> h = height"
    and "int_truediv 768 (min w h) = Inr scale_factor"
    and "int_mul_float w scale_factor = Inr pw" and "py_int pw = Inr w'"
    and "int_mul_float h scale_factor = Inr ph" and "py_int ph = Inr h'"
    and "int_truediv w' 512 = Inr qw" and "int_truediv h' 512 = Inr qh"
    and "cost = math_ceil qw * math_ceil qh * 170 + 85"
proof -
  have "\<exists>x. (if max width height > 2048 then
              bind_err (int_truediv 2048 (max width height)) (\<lambda>scale_factor.
              bind_err (bind_err (int_mul_float width scale_factor) py_int) (\<lambda>width.
              bind_err (bind_err (int_mul_float height scale_factor) py_int) (\<lambda>height.
              Inr (width, height))))
            else Inr (width, height)) = Inr x
          \<and> (case x of (w, h) \<Rightarrow>
               bind_err (int_truediv 768 (min w h)) (\<lambda>scale_factor.
                 bind_err (bind_err (int_mul_float w scale_factor) py_int) (\<lambda>width.
                 bind_err (bind_err (int_mul_float h scale_factor) py_int) (\<lambda>height.
                 bind_err (int_truediv width 512) (\<lambda>qw.
                 bind_err (int_truediv height 512) (\<lambda>qh.
                 Inr (math_ceil qw * math_ceil qh * 170 + 85))))))) = Inr cost"
    using assms unfolding token_count_for_image_def Let_def prod.case
    by (simp only: bind_err_Inr)
  then obtain w h where
    step1: "(if max width height > 2048 then
              bind_err (int_truediv 2048 (max width height)) (\<lambda>scale_factor.
              bind_err (bind_err (int_mul_float width scale_factor) py_int) (\<lambda>width.
              bind_err (bind_err (int_mul_float height scale_factor) py_int) (\<lambda>height.
              Inr (width, height))))
            else Inr (width, height)) = Inr (w, h)"
    and step2: "bind_err (int_truediv 768 (min w h)) (\<lambda>scale_factor.
                 bind_err (bind_err (int_mul_float w scale_factor) py_int) (\<lambda>width.
                 bind_err (bind_err (int_mul_float h scale_factor) py_int) (\<lambda>height.
                 bind_err (int_truediv width 512) (\<lambda>qw.
                 bind_err (int_truediv height 512) (\<lambda>qh.
                 Inr (math_ceil qw * math_ceil qh * 170 + 85)))))) = Inr cost"
    by (auto split: prod.splits)
  have a: "if max width height > 2048
     then \<exists>sf1 p1 p2. int_truediv 2048 (max width height) = Inr sf1
            \<and> int_mul_float width sf1 = Inr p1 \<and> py_int p1 = Inr w
            \<and> int_mul_float height sf1 = Inr p2 \<and> py_int p2 = Inr h
     else w = width \<and> h = height"
    using step1 by (auto simp: bind_err_Inr)
  from step2 obtain scale_factor pw w' ph h' qw qh where
    "int_truediv 768 (min w h) = Inr scale_factor"
    "int_mul_float w scale_factor = Inr pw" "py_int pw = Inr w'"
    "int_mul_float h scale_factor = Inr ph" "py_int ph = Inr h'"
    "int_truediv w' 512 = Inr qw" "int_truediv h' 512 = Inr qh"
    "cost = math_ceil qw * math_ceil qh * 170 + 85"
    by (auto simp: bind_err_Inr)
  with a show thesis by (rule that)
qed

text \<open>
  C10. Whenever the estimator returns a cost for positive dimensions, the cost is
  \<open>170 * tiles + 85\<close> with at least four tiles, hence at least 765: the second scaling brings
  both sides to at least 767 pixels, which is two tiles each way.
\<close>

theorem image_cost_at_least_four_tiles:
  assumes "0 < width" and "0 < height"
    and "token_count_for_image (width, height) = Inr cost"
  shows "\<exists>tiles. 4 \<le> tiles \<and> cost = 170 * tiles + 85 \<and> 765 \<le> cost"
proof -
  from assms(3) obtain w h scale_factor pw w' ph h' qw qh where
    step1: "if max width height > 2048
     then \<exists>sf1 p1 p2. int_truediv 2048 (max width height) = Inr sf1
            \<and> int_mul_float width sf1 = Inr p1 \<and> py_int p1 = Inr w
            \<and> int_mul_float height sf1 = Inr p2 \<and> py_int p2 = Inr h
     else w = width \<and> h = height"
    and sf: "int_truediv 768 (min w h) = Inr scale_factor"
    and w': "int_mul_float w scale_factor = Inr pw" "py_int pw = Inr w'"
    and h': "int_mul_float h scale_factor = Inr ph" "py_int ph = Inr h'"
    and qw: "int_truediv w' 512 = Inr qw"
    and qh: "int_truediv h' 512 = Inr qh"
    and cost: "cost = math_ceil qw * math_ceil qh * 170 + 85"
    by (rule token_count_for_image_Inr)
  have nn: "0 \<le> w \<and> 0 \<le> h"
  proof (cases "max width height > 2048")
    case False
    with step1 assms(1,2) show ?thesis by simp
  next
    case True
    then have mpos: "0 < max width height" by simp
    from True step1 obtain sf1 p1 p2 where
      "int_truediv 2048 (max width height) = Inr sf1"
      "int_mul_float width sf1 = Inr p1" "py_int p1 = Inr w"
      "int_mul_float height sf1 = Inr p2" "py_int p2 = Inr h"
      by auto
    then show ?thesis
      using downscaled_nonneg [OF _ mpos, of width sf1 p1 w]
        downscaled_nonneg [OF _ mpos, of height sf1 p2 h] assms(1,2)
      by simp
  qed
  have "min w h \<noteq> 0" using sf by (auto simp: int_truediv_def)
  with nn have m: "1 \<le> min w h" by linarith
  have "767 \<le> w'" by (rule scaled_ge_767 [OF m _ sf w']) simp
  then have tw: "2 \<le> math_ceil qw" using qw by (rule tiles_ge_2)
  have "767 \<le> h'" by (rule scaled_ge_767 [OF m _ sf h']) simp
  then have th: "2 \<le> math_ceil qh" using qh by (rule tiles_ge_2)
  have "2 * 2 \<le> math_ceil qw * math_ceil qh"
    using tw th by (intro mult_mono) simp_all
  then have t4: "4 \<le> math_ceil qw * math_ceil qh" by simp
  show ?thesis
  proof (intro exI conjI)
    show "4 \<le> math_ceil qw * math_ceil qh" by (rule t4)
    show "cost = 170 * (math_ceil qw * math_ceil qh) + 85" unfolding cost by simp
    show "765 \<le> cost" unfolding cost using t4 by linarith
  qed
qed

theorem image_cost_at_least_four_tiles_witness:
  "(0::int) < 1 \<and> token_count_for_image (1, 1) = Inr 765
   \<and> (\<exists>tiles. 4 \<le> tiles \<and> (765::int) = 170 * tiles + 85 \<and> (765::int) \<le> 765)"
proof -
  have h: "token_count_for_image (1, 1) = Inr 765"
    by (simp add: token_count_for_image_def float_eval)
  from image_cost_at_least_four_tiles [OF _ _ h] h show ?thesis by simp
qed

section \<open>The constructor in two parts\<close>

lemmas example_eval = example_litellm_def example_litellm_no_keys_def
  example_litellm_gpt4_keys_def example_catalog_def example_difflib_def empty_state_def
  char_ratio_def fuzzy_match_models_def get_close_matches_def check_model_name_def

lemma Model_init_unfold:
  "Model_init L D model weak require_model_info validate_env st =
     (case init_prelude L D model require_model_info validate_env st of
        (Inl err, st1) \<Rightarrow> (Inl err, st1)
      | (Inr obj, st1) \<Rightarrow>
          if weak = WeakFalse then
            (Inr (length (heap st)),
             st1\<lparr>heap := (heap st1)[length (heap st) := obj\<lparr>weak_model_name := None\<rparr>]\<rparr>)
          else
            case get_weak_model L D (length (heap st)) obj weak require_model_info st1 of
              (Inl err, st2) \<Rightarrow> (Inl err, st2)
            | (Inr obj', st2) \<Rightarrow>
                (Inr (length (heap st)), st2\<lparr>heap := (heap st2)[length (heap st) := obj']\<rparr>))"
  by (subst Model_init.simps)
    (simp add: init_prelude_def Let_def split: sum.splits)

lemma init_prelude_heap:
  "init_prelude L D model rmi ve st = (r, st1) \<Longrightarrow>
     heap st1 = heap st @ [Model_class\<lparr>name := Some model\<rparr>]"
  by (auto simp: init_prelude_def Let_def split: sum.splits if_splits)

lemma find_name_Some:
  "find (\<lambda>ms. model = ms_name ms) xs = Some ms \<Longrightarrow> ms \<in> set xs \<and> ms_name ms = model"
  by (induction xs) (auto split: if_splits)

lemma copy_fields_sel [simp]:
  "Model.name (copy_fields ms self) = Some (ms_name ms)"
  "edit_format (copy_fields ms self) = ms_edit_format ms"
  "weak_model_name (copy_fields ms self) = ms_weak_model_name ms"
  "use_repo_map (copy_fields ms self) = ms_use_repo_map ms"
  "send_undo_reply (copy_fields ms self) = ms_send_undo_reply ms"
  "accepts_images (copy_fields ms self) = ms_accepts_images ms"
  "weak_model (copy_fields ms self) = weak_model self"
  "info (copy_fields ms self) = info self"
  "max_chat_history_tokens (copy_fields ms self) = max_chat_history_tokens self"
  by (cases ms; simp)+

lemma configure_model_settings_weak_model [simp]:
  "weak_model (configure_model_settings self model) = weak_model self"
  by (simp add: configure_model_settings_def split: option.splits)

lemma configure_model_settings_name:
  "Model.name self = Some model \<Longrightarrow> Model.name (configure_model_settings self model) = Some model"
  by (auto simp: configure_model_settings_def split: option.splits dest: find_name_Some)

lemma configure_model_settings_info [simp]:
  "info (configure_model_settings self model) = info self"
  by (simp add: configure_model_settings_def split: option.splits)

lemma init_prelude_obj:
  assumes "init_prelude L D model rmi ve st = (Inr obj, st1)"
  shows "weak_model obj = None" and "Model.name obj = Some model"
    and "\<exists>i k. obj = configure_model_settings
            (Model_class\<lparr>name := Some model, info := i, max_chat_history_tokens := k\<rparr>) model"
proof -
  show c: "\<exists>i k. obj = configure_model_settings
            (Model_class\<lparr>name := Some model, info := i, max_chat_history_tokens := k\<rparr>) model"
    using assms by (auto simp: init_prelude_def Let_def split: sum.splits if_splits)
  then show "weak_model obj = None" by (auto simp: Model_class_def)
  from c show "Model.name obj = Some model"
    by (auto intro: configure_model_settings_name)
qed

lemma Model_init_WeakFalse:
  "Model_init L D w WeakFalse rmi ve st1 =
     (case init_prelude L D w rmi ve st1 of
        (Inl err, st2) \<Rightarrow> (Inl err, st2)
      | (Inr obj, st2) \<Rightarrow>
          (Inr (length (heap st1)),
           st2\<lparr>heap := (heap st2)[length (heap st1) := obj\<lparr>weak_model_name := None\<rparr>]\<rparr>))"
  by (simp add: Model_init_unfold split: prod.splits sum.splits)

lemma Model_init_WeakFalse_heap:
  assumes "Model_init L D w WeakFalse rmi ve st1 = (res, st2)"
  shows "length (heap st2) = Suc (length (heap st1))"
    and "k < length (heap st1) \<Longrightarrow> heap st2 ! k = heap st1 ! k"
    and "res = Inr r \<Longrightarrow> r = length (heap st1) \<and> weak_model (heap st2 ! r) = None
           \<and> weak_model_name (heap st2 ! r) = None"
proof -
  obtain r1 s1 where p: "init_prelude L D w rmi ve st1 = (r1, s1)" by (cases "init_prelude L D w rmi ve st1")
  note h = init_prelude_heap [OF p]
  show "length (heap st2) = Suc (length (heap st1))"
    using assms p h by (auto simp: Model_init_WeakFalse split: sum.splits)
  show "k < length (heap st1) \<Longrightarrow> heap st2 ! k = heap st1 ! k"
    using assms p h by (auto simp: Model_init_WeakFalse nth_append split: sum.splits)
  show "res = Inr r \<Longrightarrow> r = length (heap st1) \<and> weak_model (heap st2 ! r) = None
           \<and> weak_model_name (heap st2 ! r) = None"
    using assms p h init_prelude_obj(1) [of L D w rmi ve st1 _ s1]
    by (auto simp: Model_init_WeakFalse split: sum.splits)
qed

lemma get_weak_model_cases:
  assumes "get_weak_model L D self obj weak rmi st1 = (res, st2)"
  shows "if overridden_weak_model_name weak (weak_model_name obj) = None
            \<or> overridden_weak_model_name weak (weak_model_name obj) = Some []
            \<or> overridden_weak_model_name weak (weak_model_name obj) = Model.name obj
         then res = Inr (obj\<lparr>weak_model_name := overridden_weak_model_name weak (weak_model_name obj),
                             weak_model := Some self\<rparr>) \<and> st2 = st1
         else \<exists>w. overridden_weak_model_name weak (weak_model_name obj) = Some w
                \<and> (case Model_init L D w WeakFalse rmi True st1 of
                      (Inl err, st) \<Rightarrow> res = Inl err \<and> st2 = st
                    | (Inr r, st) \<Rightarrow>
                        res = Inr (obj\<lparr>weak_model_name := Some w, weak_model := Some r\<rparr>)
                        \<and> st2 = st)"
  using assms
  by (subst (asm) get_weak_model.simps)
    (auto simp: overridden_weak_model_name_def Let_def
      split: weak_model_arg.splits option.splits if_splits prod.splits sum.splits)

lemma Model_init_cases:
  assumes p: "init_prelude L D model rmi ve st = (Inr obj, st1)"
  shows
    "if weak = WeakFalse then
       \<exists>st'. Model_init L D model weak rmi ve st = (Inr (length (heap st)), st')
          \<and> heap st' ! length (heap st) = obj\<lparr>weak_model_name := None\<rparr>
          \<and> length (heap st') = Suc (length (heap st))
     else if overridden_weak_model_name weak (weak_model_name obj) = None
            \<or> overridden_weak_model_name weak (weak_model_name obj) = Some []
            \<or> overridden_weak_model_name weak (weak_model_name obj) = Some model then
       \<exists>st'. Model_init L D model weak rmi ve st = (Inr (length (heap st)), st')
          \<and> heap st' ! length (heap st)
              = obj\<lparr>weak_model_name := overridden_weak_model_name weak (weak_model_name obj),
                    weak_model := Some (length (heap st))\<rparr>
          \<and> length (heap st') = Suc (length (heap st))
     else
       \<exists>w. overridden_weak_model_name weak (weak_model_name obj) = Some w
          \<and> (case Model_init L D w WeakFalse rmi True st1 of
                (Inl err, st2) \<Rightarrow> Model_init L D model weak rmi ve st = (Inl err, st2)
              | (Inr r, st2) \<Rightarrow>
                  r = Suc (length (heap st))
                  \<and> (\<exists>st'. Model_init L D model weak rmi ve st = (Inr (length (heap st)), st')
                        \<and> heap st' ! length (heap st)
                            = obj\<lparr>weak_model_name := Some w, weak_model := Some r\<rparr>
                        \<and> heap st' ! r = heap st2 ! r
                        \<and> length (heap st') = length (heap st) + 2))"
proof -
  define self where "self = length (heap st)"
  have h1: "heap st1 = heap st @ [Model_class\<lparr>name := Some model\<rparr>]"
    by (rule init_prelude_heap [OF p])
  then have len1: "length (heap st1) = Suc self" and lt1: "self < length (heap st1)"
    by (simp_all add: self_def)
  have nm: "Model.name obj = Some model" and wm: "weak_model obj = None"
    using init_prelude_obj [OF p] by simp_all
  show ?thesis
  proof (cases "weak = WeakFalse")
    case True
    then show ?thesis
      using p lt1 len1 by (simp add: Model_init_unfold self_def)
  next
    case False
    obtain res st2 where g: "get_weak_model L D self obj weak rmi st1 = (res, st2)"
      by (cases "get_weak_model L D self obj weak rmi st1")
    let ?wn = "overridden_weak_model_name weak (weak_model_name obj)"
    show ?thesis
    proof (cases "?wn = None \<or> ?wn = Some [] \<or> ?wn = Some model")
      case True
      with get_weak_model_cases [OF g] nm
      have "res = Inr (obj\<lparr>weak_model_name := ?wn, weak_model := Some self\<rparr>)" and "st2 = st1"
        by simp_all
      with False True p g lt1 len1 show ?thesis
        by (simp add: Model_init_unfold self_def [symmetric])
    next
      case notself: False
      with get_weak_model_cases [OF g] nm obtain w where
        w: "?wn = Some w"
        and c: "case Model_init L D w WeakFalse rmi True st1 of
                  (Inl err, st) \<Rightarrow> res = Inl err \<and> st2 = st
                | (Inr r, st) \<Rightarrow>
                    res = Inr (obj\<lparr>weak_model_name := Some w, weak_model := Some r\<rparr>)
                    \<and> st2 = st"
        by auto
      obtain r2 s2 where i: "Model_init L D w WeakFalse rmi True st1 = (r2, s2)"
        by (cases "Model_init L D w WeakFalse rmi True st1")
      note hp = Model_init_WeakFalse_heap [OF i]
      show ?thesis
      proof (cases r2)
        case (Inl err)
        with c i have "res = Inl err" "st2 = s2" by simp_all
        with False notself w p g i Inl show ?thesis
          by (simp add: Model_init_unfold self_def [symmetric])
      next
        case (Inr r)
        with c i have res: "res = Inr (obj\<lparr>weak_model_name := Some w, weak_model := Some r\<rparr>)"
          and st2: "st2 = s2" by simp_all
        from hp(3) [OF Inr] len1 have r: "r = Suc self" by simp
        have lt2: "self < length (heap s2)" and len2: "length (heap s2) = Suc (Suc self)"
          using hp(1) len1 by simp_all
        from False notself w p g i Inr res st2 r lt2 len2 show ?thesis
          by (simp add: Model_init_unfold self_def [symmetric])
      qed
    qed
  qed
qed

lemma Model_init_Inl_heap:
  assumes "init_prelude L D model rmi ve st = (Inl err, st1)"
  shows "Model_init L D model weak rmi ve st = (Inl err, st1)"
  using assms by (simp add: Model_init_unfold)

lemma Model_init_false_case:
  assumes "init_prelude L D model rmi ve st = (Inr obj, st1)"
  obtains st' where "Model_init L D model WeakFalse rmi ve st = (Inr (length (heap st)), st')"
    and "heap st' ! length (heap st) = obj\<lparr>weak_model_name := None\<rparr>"
    and "length (heap st') = Suc (length (heap st))"
proof -
  from Model_init_cases [OF assms, of WeakFalse]
  have "\<exists>st'. Model_init L D model WeakFalse rmi ve st = (Inr (length (heap st)), st')
          \<and> heap st' ! length (heap st) = obj\<lparr>weak_model_name := None\<rparr>
          \<and> length (heap st') = Suc (length (heap st))"
    by (simp only: if_True)
  then show thesis by (elim exE conjE) (rule that)
qed

lemma Model_init_self_case:
  assumes "init_prelude L D model rmi ve st = (Inr obj, st1)"
    and "weak \<noteq> WeakFalse"
    and "overridden_weak_model_name weak (weak_model_name obj) = None
         \<or> overridden_weak_model_name weak (weak_model_name obj) = Some []
         \<or> overridden_weak_model_name weak (weak_model_name obj) = Some model"
  obtains st' where "Model_init L D model weak rmi ve st = (Inr (length (heap st)), st')"
    and "heap st' ! length (heap st)
          = obj\<lparr>weak_model_name := overridden_weak_model_name weak (weak_model_name obj),
                weak_model := Some (length (heap st))\<rparr>"
    and "length (heap st') = Suc (length (heap st))"
proof -
  from Model_init_cases [OF assms(1), of weak] assms(2,3)
  have "\<exists>st'. Model_init L D model weak rmi ve st = (Inr (length (heap st)), st')
          \<and> heap st' ! length (heap st)
              = obj\<lparr>weak_model_name := overridden_weak_model_name weak (weak_model_name obj),
                    weak_model := Some (length (heap st))\<rparr>
          \<and> length (heap st') = Suc (length (heap st))"
    by (simp only: if_True if_False)
  then show thesis by (elim exE conjE) (rule that)
qed

lemma Model_init_distinct_case:
  assumes "init_prelude L D model rmi ve st = (Inr obj, st1)"
    and "weak \<noteq> WeakFalse"
    and "\<not> (overridden_weak_model_name weak (weak_model_name obj) = None
         \<or> overridden_weak_model_name weak (weak_model_name obj) = Some []
         \<or> overridden_weak_model_name weak (weak_model_name obj) = Some model)"
  obtains w where "overridden_weak_model_name weak (weak_model_name obj) = Some w"
    and "case Model_init L D w WeakFalse rmi True st1 of
              (Inl err, st2) \<Rightarrow> Model_init L D model weak rmi ve st = (Inl err, st2)
            | (Inr r, st2) \<Rightarrow>
                r = Suc (length (heap st))
                \<and> (\<exists>st'. Model_init L D model weak rmi ve st = (Inr (length (heap st)), st')
                      \<and> heap st' ! length (heap st)
                          = obj\<lparr>weak_model_name := Some w, weak_model := Some r\<rparr>
                      \<and> heap st' ! r = heap st2 ! r
                      \<and> length (heap st') = length (heap st) + 2)"
proof -
  from Model_init_cases [OF assms(1), of weak] assms(2,3)
  have "\<exists>w. overridden_weak_model_name weak (weak_model_name obj) = Some w
          \<and> (case Model_init L D w WeakFalse rmi True st1 of
              (Inl err, st2) \<Rightarrow> Model_init L D model weak rmi ve st = (Inl err, st2)
            | (Inr r, st2) \<Rightarrow>
                r = Suc (length (heap st))
                \<and> (\<exists>st'. Model_init L D model weak rmi ve st = (Inr (length (heap st)), st')
                      \<and> heap st' ! length (heap st)
                          = obj\<lparr>weak_model_name := Some w, weak_model := Some r\<rparr>
                      \<and> heap st' ! r = heap st2 ! r
                      \<and> length (heap st') = length (heap st) + 2))"
    by (simp only: if_True if_False)
  then show thesis by (elim exE conjE) (rule that)
qed

lemma Model_init_distinct_Inr:
  assumes "init_prelude L D model rmi ve st = (Inr obj, st1)"
    and "weak \<noteq> WeakFalse"
    and "overridden_weak_model_name weak (weak_model_name obj) = Some w"
    and "w \<noteq> []" and "w \<noteq> model"
    and "Model_init L D w WeakFalse rmi True st1 = (Inr r, st2)"
  obtains st' where "r = Suc (length (heap st))"
    and "Model_init L D model weak rmi ve st = (Inr (length (heap st)), st')"
    and "heap st' ! length (heap st) = obj\<lparr>weak_model_name := Some w, weak_model := Some r\<rparr>"
    and "heap st' ! r = heap st2 ! r"
    and "length (heap st') = length (heap st) + 2"
proof -
  have n: "\<not> (overridden_weak_model_name weak (weak_model_name obj) = None
         \<or> overridden_weak_model_name weak (weak_model_name obj) = Some []
         \<or> overridden_weak_model_name weak (weak_model_name obj) = Some model)"
    using assms(3,4,5) by simp
  from Model_init_distinct_case [OF assms(1,2) n] obtain w' where
    w': "overridden_weak_model_name weak (weak_model_name obj) = Some w'"
    and c: "case Model_init L D w' WeakFalse rmi True st1 of
              (Inl err, st2) \<Rightarrow> Model_init L D model weak rmi ve st = (Inl err, st2)
            | (Inr r, st2) \<Rightarrow>
                r = Suc (length (heap st))
                \<and> (\<exists>st'. Model_init L D model weak rmi ve st = (Inr (length (heap st)), st')
                      \<and> heap st' ! length (heap st)
                          = obj\<lparr>weak_model_name := Some w', weak_model := Some r\<rparr>
                      \<and> heap st' ! r = heap st2 ! r
                      \<and> length (heap st') = length (heap st) + 2)" .
  from w' assms(3) have "w' = w" by simp
  note c [unfolded this assms(6) prod.case sum.case]
  then show thesis by (elim exE conjE) (rule that)
qed

lemma Model_init_distinct_Inl:
  assumes "init_prelude L D model rmi ve st = (Inr obj, st1)"
    and "weak \<noteq> WeakFalse"
    and "overridden_weak_model_name weak (weak_model_name obj) = Some w"
    and "w \<noteq> []" and "w \<noteq> model"
    and "Model_init L D w WeakFalse rmi True st1 = (Inl err, st2)"
  shows "Model_init L D model weak rmi ve st = (Inl err, st2)"
proof -
  have n: "\<not> (overridden_weak_model_name weak (weak_model_name obj) = None
         \<or> overridden_weak_model_name weak (weak_model_name obj) = Some []
         \<or> overridden_weak_model_name weak (weak_model_name obj) = Some model)"
    using assms(3,4,5) by simp
  from Model_init_distinct_case [OF assms(1,2) n] obtain w' where
    w': "overridden_weak_model_name weak (weak_model_name obj) = Some w'"
    and c: "case Model_init L D w' WeakFalse rmi True st1 of
              (Inl err, st2) \<Rightarrow> Model_init L D model weak rmi ve st = (Inl err, st2)
            | (Inr r, st2) \<Rightarrow>
                r = Suc (length (heap st))
                \<and> (\<exists>st'. Model_init L D model weak rmi ve st = (Inr (length (heap st)), st')
                      \<and> heap st' ! length (heap st)
                          = obj\<lparr>weak_model_name := Some w', weak_model := Some r\<rparr>
                      \<and> heap st' ! r = heap st2 ! r
                      \<and> length (heap st') = length (heap st) + 2)" .
  from w' assms(3) have "w' = w" by simp
  note c [unfolded this assms(6) prod.case sum.case]
  then show ?thesis .
qed

lemma Model_init_Inr_obj:
  assumes m: "Model_init L D model weak rmi ve st = (Inr a, st')"
  obtains obj st1 wn wm where "init_prelude L D model rmi ve st = (Inr obj, st1)"
    and "a = length (heap st)"
    and "heap st' ! a = obj\<lparr>weak_model_name := wn, weak_model := wm\<rparr>"
proof -
  let ?self = "length (heap st)"
  obtain r1 st1 where p0: "init_prelude L D model rmi ve st = (r1, st1)"
    by (cases "init_prelude L D model rmi ve st")
  have "\<exists>obj. r1 = Inr obj"
  proof (cases r1)
    case (Inl err)
    from Model_init_Inl_heap [OF p0 [unfolded Inl], of weak] m show ?thesis by simp
  next
    case (Inr obj)
    then show ?thesis by simp
  qed
  then obtain obj where p: "init_prelude L D model rmi ve st = (Inr obj, st1)"
    using p0 by (elim exE) simp
  let ?wn = "overridden_weak_model_name weak (weak_model_name obj)"
  show thesis
  proof (cases "weak = WeakFalse")
    case True
    from Model_init_false_case [OF p] obtain st'' where
      a: "Model_init L D model WeakFalse rmi ve st = (Inr ?self, st'')"
      and b: "heap st'' ! ?self = obj\<lparr>weak_model_name := None\<rparr>" .
    from a m True have e: "a = ?self" "st'' = st'" by simp_all
    have "heap st' ! a = obj\<lparr>weak_model_name := None, weak_model := weak_model obj\<rparr>"
      using b e by simp
    with p e(1) show thesis by (rule that)
  next
    case False
    show thesis
    proof (cases "?wn = None \<or> ?wn = Some [] \<or> ?wn = Some model")
      case True
      from Model_init_self_case [OF p False True] obtain st'' where
        a: "Model_init L D model weak rmi ve st = (Inr ?self, st'')"
        and b: "heap st'' ! ?self = obj\<lparr>weak_model_name := ?wn, weak_model := Some ?self\<rparr>" .
      from a m have e: "a = ?self" "st'' = st'" by simp_all
      have "heap st' ! a = obj\<lparr>weak_model_name := ?wn, weak_model := Some ?self\<rparr>"
        using b e by simp
      with p e(1) show thesis by (rule that)
    next
      case nself: False
      from Model_init_distinct_case [OF p False nself] obtain w where w: "?wn = Some w"
        by this
      from nself w have wne: "w \<noteq> []" and wnm: "w \<noteq> model" by simp_all
      obtain r2 s2 where i: "Model_init L D w WeakFalse rmi True st1 = (r2, s2)"
        by (cases "Model_init L D w WeakFalse rmi True st1")
      show thesis
      proof (cases r2)
        case (Inl err)
        from Model_init_distinct_Inl [OF p False w wne wnm i [unfolded Inl]] m
        show ?thesis by simp
      next
        case (Inr r)
        from Model_init_distinct_Inr [OF p False w wne wnm i [unfolded Inr]] obtain st'' where
          a: "Model_init L D model weak rmi ve st = (Inr ?self, st'')"
          and b: "heap st'' ! ?self = obj\<lparr>weak_model_name := Some w, weak_model := Some r\<rparr>" .
        from a m have e: "a = ?self" "st'' = st'" by simp_all
        have "heap st' ! a = obj\<lparr>weak_model_name := Some w, weak_model := Some r\<rparr>"
          using b e by simp
        with p e(1) show thesis by (rule that)
      qed
    qed
  qed
qed

section \<open>Settings resolution\<close>

lemma MODEL_SETTINGS_distinct: "distinct (map ms_name MODEL_SETTINGS)"
  by (simp add: MODEL_SETTINGS_def)

lemma find_distinct_key:
  "distinct (map f xs) \<Longrightarrow> x \<in> set xs \<Longrightarrow> find (\<lambda>y. f x = f y) xs = Some x"
  by (induction xs) (auto simp: image_iff)

lemma rule2_not_registered:
  assumes "rule2 model" and "rule3 model"
  shows "find (\<lambda>ms. model = ms_name ms) MODEL_SETTINGS = None"
proof (cases "find (\<lambda>ms. model = ms_name ms) MODEL_SETTINGS")
  case None
  then show ?thesis .
next
  case (Some ms)
  then have "ms \<in> set MODEL_SETTINGS" and "ms_name ms = model"
    by (auto dest: find_name_Some)
  with assms have False
    by (auto simp: MODEL_SETTINGS_def rule2_def rule3_def sublist_code prefix_code)
  then show ?thesis ..
qed

lemma find_name_None:
  "find (\<lambda>ms. model = ms_name ms) xs = None \<longleftrightarrow> model \<notin> set (map ms_name xs)"
  by (induction xs) auto

text \<open>
  C3. Settings resolution takes the first rule that matches. For the name of a registry
  entry the result is that entry copied onto the instance, so the five preset fields (edit
  format, weak model name, use repo map, send undo reply, accepts images) are the entry's and
  no substring rule is applied. A name that matches both the second rule (\<^verbatim>\<open>llama3\<close> and
  \<^verbatim>\<open>70b\<close>) and the third (\<^verbatim>\<open>gpt-4-turbo\<close>, or \<^verbatim>\<open>gpt-4-\<close> and \<^verbatim>\<open>-preview\<close>) gets the
  outcome of the second: edit format \<^verbatim>\<open>diff\<close>, not \<^verbatim>\<open>udiff\<close>. For every other name the rules
  are tried in order, the second, the third, the fourth, then the default rule, and the
  first that matches alone decides: a name of the third rule always matches the fourth as
  well and still gets \<^verbatim>\<open>udiff\<close>.
\<close>

theorem settings_cascade_first_match:
  "(ms \<in> set MODEL_SETTINGS \<longrightarrow>
      configure_model_settings self (ms_name ms) = copy_fields ms self
      \<and> edit_format (configure_model_settings self (ms_name ms)) = ms_edit_format ms
      \<and> weak_model_name (configure_model_settings self (ms_name ms)) = ms_weak_model_name ms
      \<and> use_repo_map (configure_model_settings self (ms_name ms)) = ms_use_repo_map ms
      \<and> send_undo_reply (configure_model_settings self (ms_name ms)) = ms_send_undo_reply ms
      \<and> accepts_images (configure_model_settings self (ms_name ms)) = ms_accepts_images ms)
   \<and> (rule2 model \<and> rule3 model \<longrightarrow>
        configure_model_settings self model =
          self\<lparr>edit_format := ''diff'', use_repo_map := True, send_undo_reply := True\<rparr>
        \<and> edit_format (configure_model_settings self model) = ''diff'')
   \<and> (model \<notin> set (map ms_name MODEL_SETTINGS) \<longrightarrow>
        configure_model_settings self model =
          (if rule2 model then
             self\<lparr>edit_format := ''diff'', use_repo_map := True, send_undo_reply := True\<rparr>
           else if rule3 model then
             self\<lparr>edit_format := ''udiff'', use_repo_map := True, send_undo_reply := True\<rparr>
           else if rule4 model then
             self\<lparr>edit_format := ''diff'', use_repo_map := True, send_undo_reply := True\<rparr>
           else if edit_format self = ''diff'' then self\<lparr>use_repo_map := True\<rparr>
           else self))
   \<and> (model \<notin> set (map ms_name MODEL_SETTINGS) \<and> \<not> rule2 model \<and> rule3 model \<longrightarrow>
        rule4 model \<and> edit_format (configure_model_settings self model) = ''udiff'')"
proof (intro conjI impI)
  assume ms: "ms \<in> set MODEL_SETTINGS"
  have "find (\<lambda>y. ms_name ms = ms_name y) MODEL_SETTINGS = Some ms"
    by (rule find_distinct_key [OF MODEL_SETTINGS_distinct ms])
  then show eq: "configure_model_settings self (ms_name ms) = copy_fields ms self"
    by (simp add: configure_model_settings_def)
  show "edit_format (configure_model_settings self (ms_name ms)) = ms_edit_format ms"
    "weak_model_name (configure_model_settings self (ms_name ms)) = ms_weak_model_name ms"
    "use_repo_map (configure_model_settings self (ms_name ms)) = ms_use_repo_map ms"
    "send_undo_reply (configure_model_settings self (ms_name ms)) = ms_send_undo_reply ms"
    "accepts_images (configure_model_settings self (ms_name ms)) = ms_accepts_images ms"
    unfolding eq by simp_all
next
  assume r: "rule2 model \<and> rule3 model"
  then have none: "find (\<lambda>ms. model = ms_name ms) MODEL_SETTINGS = None"
    by (intro rule2_not_registered) simp_all
  with r show eq: "configure_model_settings self model =
          self\<lparr>edit_format := ''diff'', use_repo_map := True, send_undo_reply := True\<rparr>"
    by (simp add: configure_model_settings_def rule2_def)
  show "edit_format (configure_model_settings self model) = ''diff''"
    unfolding eq by simp
next
  assume "model \<notin> set (map ms_name MODEL_SETTINGS)"
  then have none: "find (\<lambda>ms. model = ms_name ms) MODEL_SETTINGS = None"
    by (simp add: find_name_None)
  show "configure_model_settings self model =
          (if rule2 model then
             self\<lparr>edit_format := ''diff'', use_repo_map := True, send_undo_reply := True\<rparr>
           else if rule3 model then
             self\<lparr>edit_format := ''udiff'', use_repo_map := True, send_undo_reply := True\<rparr>
           else if rule4 model then
             self\<lparr>edit_format := ''diff'', use_repo_map := True, send_undo_reply := True\<rparr>
           else if edit_format self = ''diff'' then self\<lparr>use_repo_map := True\<rparr>
           else self)"
    unfolding configure_model_settings_def none rule2_def rule3_def rule4_def by simp
next
  assume a: "model \<notin> set (map ms_name MODEL_SETTINGS) \<and> \<not> rule2 model \<and> rule3 model"
  then have none: "find (\<lambda>ms. model = ms_name ms) MODEL_SETTINGS = None"
    by (simp add: find_name_None)
  have s1: "sublist ''gpt-4'' ''gpt-4-turbo''" and s2: "sublist ''gpt-4'' ''gpt-4-''"
    by (simp_all add: sublist_code prefix_code)
  from a have "sublist ''gpt-4-turbo'' model \<or> sublist ''gpt-4-'' model"
    by (auto simp: rule3_def)
  then have "sublist ''gpt-4'' model"
    using s1 s2 by (auto intro: sublist_order.order_trans)
  then show "rule4 model" by (simp add: rule4_def)
  from a none have "configure_model_settings self model =
      self\<lparr>edit_format := ''udiff'', use_repo_map := True, send_undo_reply := True\<rparr>"
    unfolding configure_model_settings_def rule2_def rule3_def by simp
  then show "edit_format (configure_model_settings self model) = ''udiff''" by simp
qed

theorem settings_cascade_first_match_witness:
  "ModelSettings ''gpt-4-turbo'' ''udiff'' (Some ''gpt-3.5-turbo'') True True True
     \<in> set MODEL_SETTINGS
   \<and> configure_model_settings Model_class ''gpt-4-turbo'' =
       Model_class\<lparr>name := Some ''gpt-4-turbo'', edit_format := ''udiff'',
         weak_model_name := Some ''gpt-3.5-turbo'', use_repo_map := True,
         send_undo_reply := True, accepts_images := True\<rparr>
   \<and> rule2 ''llama3-70b-gpt-4-turbo'' \<and> rule3 ''llama3-70b-gpt-4-turbo''
   \<and> edit_format (configure_model_settings Model_class ''llama3-70b-gpt-4-turbo'') = ''diff''
   \<and> ''gpt-4-turbo-x'' \<notin> set (map ms_name MODEL_SETTINGS)
   \<and> \<not> rule2 ''gpt-4-turbo-x'' \<and> rule3 ''gpt-4-turbo-x'' \<and> rule4 ''gpt-4-turbo-x''
   \<and> edit_format (configure_model_settings Model_class ''gpt-4-turbo-x'') = ''udiff''
   \<and> ''gpt-4-x'' \<notin> set (map ms_name MODEL_SETTINGS)
   \<and> \<not> rule2 ''gpt-4-x'' \<and> \<not> rule3 ''gpt-4-x'' \<and> rule4 ''gpt-4-x''
   \<and> configure_model_settings Model_class ''gpt-4-x'' =
       Model_class\<lparr>edit_format := ''diff'', use_repo_map := True, send_undo_reply := True\<rparr>
   \<and> ''mistral-7b'' \<notin> set (map ms_name MODEL_SETTINGS)
   \<and> \<not> rule2 ''mistral-7b'' \<and> \<not> rule3 ''mistral-7b'' \<and> \<not> rule4 ''mistral-7b''
   \<and> configure_model_settings Model_class ''mistral-7b'' = Model_class"
proof -
  have a: "ModelSettings ''gpt-4-turbo'' ''udiff'' (Some ''gpt-3.5-turbo'') True True True
     \<in> set MODEL_SETTINGS"
    by (simp add: MODEL_SETTINGS_def)
  have b: "rule2 ''llama3-70b-gpt-4-turbo'' \<and> rule3 ''llama3-70b-gpt-4-turbo''"
    by (simp add: rule2_def rule3_def sublist_code prefix_code)
  have c: "''gpt-4-turbo-x'' \<notin> set (map ms_name MODEL_SETTINGS)
      \<and> \<not> rule2 ''gpt-4-turbo-x'' \<and> rule3 ''gpt-4-turbo-x''"
    by (simp add: MODEL_SETTINGS_def rule2_def rule3_def sublist_code prefix_code)
  have d: "''gpt-4-x'' \<notin> set (map ms_name MODEL_SETTINGS)"
    and d': "\<not> rule2 ''gpt-4-x''" "\<not> rule3 ''gpt-4-x''" "rule4 ''gpt-4-x''"
    by (simp_all add: MODEL_SETTINGS_def rule2_def rule3_def rule4_def sublist_code prefix_code)
  have e: "''mistral-7b'' \<notin> set (map ms_name MODEL_SETTINGS)"
    and e': "\<not> rule2 ''mistral-7b''" "\<not> rule3 ''mistral-7b''" "\<not> rule4 ''mistral-7b''"
    by (simp_all add: MODEL_SETTINGS_def rule2_def rule3_def rule4_def sublist_code prefix_code)
  have w: "edit_format Model_class \<noteq> ''diff''" by (simp add: Model_class_def)
  note t1 = settings_cascade_first_match [of
      "ModelSettings ''gpt-4-turbo'' ''udiff'' (Some ''gpt-3.5-turbo'') True True True"
      Model_class "''llama3-70b-gpt-4-turbo''"]
  note t2 = settings_cascade_first_match [of
      "ModelSettings ''gpt-4-turbo'' ''udiff'' (Some ''gpt-3.5-turbo'') True True True"
      Model_class "''gpt-4-turbo-x''"]
  note t3 = settings_cascade_first_match [of
      "ModelSettings ''gpt-4-turbo'' ''udiff'' (Some ''gpt-3.5-turbo'') True True True"
      Model_class "''gpt-4-x''"]
  note t4 = settings_cascade_first_match [of
      "ModelSettings ''gpt-4-turbo'' ''udiff'' (Some ''gpt-3.5-turbo'') True True True"
      Model_class "''mistral-7b''"]
  from t1 a b have r1: "configure_model_settings Model_class ''gpt-4-turbo'' =
       Model_class\<lparr>name := Some ''gpt-4-turbo'', edit_format := ''udiff'',
         weak_model_name := Some ''gpt-3.5-turbo'', use_repo_map := True,
         send_undo_reply := True, accepts_images := True\<rparr>"
    and r2: "edit_format (configure_model_settings Model_class ''llama3-70b-gpt-4-turbo'') = ''diff''"
    by simp_all
  from t2 c have r3: "rule4 ''gpt-4-turbo-x''"
    and r4: "edit_format (configure_model_settings Model_class ''gpt-4-turbo-x'') = ''udiff''"
    by blast+
  from t3 d d' have r5: "configure_model_settings Model_class ''gpt-4-x'' =
       Model_class\<lparr>edit_format := ''diff'', use_repo_map := True, send_undo_reply := True\<rparr>"
    by simp
  from t4 e e' w have r6: "configure_model_settings Model_class ''mistral-7b'' = Model_class"
    by simp
  from a r1 b r2 c r3 r4 d d' r5 e e' r6 show ?thesis by blast
qed

lemma configure_model_settings_no_match:
  assumes "find (\<lambda>ms. model = ms_name ms) MODEL_SETTINGS = None"
    and "\<not> rule2 model" and "\<not> rule3 model" and "\<not> rule4 model"
    and "edit_format self \<noteq> ''diff''"
  shows "configure_model_settings self model = self"
  using assms by (auto simp: configure_model_settings_def rule2_def rule3_def rule4_def)

text \<open>
  C9. For a name that no registry entry and no substring rule matches, the constructor
  calls \<^verbatim>\<open>configure_model_settings\<close> on an instance whose edit format is the class
  default \<^verbatim>\<open>whole\<close>, so the assignment \<^verbatim>\<open>use_repo_map = True\<close> under
  \<^verbatim>\<open>edit_format == "diff"\<close> is not executed: the instance comes back unchanged, and the
  constructed model has edit format \<^verbatim>\<open>whole\<close> and no repo map.
\<close>

theorem default_rule_never_fires:
  assumes nomatch: "find (\<lambda>ms. model = ms_name ms) MODEL_SETTINGS = None"
    "\<not> rule2 model" "\<not> rule3 model" "\<not> rule4 model"
  shows "(init_prelude L D model rmi ve st = (Inr obj, st1) \<longrightarrow>
            (\<exists>i k. obj = configure_model_settings
                      (Model_class\<lparr>name := Some model, info := i,
                                   max_chat_history_tokens := k\<rparr>) model
                  \<and> edit_format (Model_class\<lparr>name := Some model, info := i,
                                   max_chat_history_tokens := k\<rparr>) = ''whole''
                  \<and> obj = Model_class\<lparr>name := Some model, info := i,
                                   max_chat_history_tokens := k\<rparr>))
         \<and> (Model_init L D model weak rmi ve st = (Inr a, st') \<longrightarrow>
              edit_format (heap st' ! a) = ''whole'' \<and> use_repo_map (heap st' ! a) = False)"
proof (rule conjI; rule impI)
  assume p: "init_prelude L D model rmi ve st = (Inr obj, st1)"
  from init_prelude_obj(3) [OF p] obtain i k where
    o: "obj = configure_model_settings
            (Model_class\<lparr>name := Some model, info := i, max_chat_history_tokens := k\<rparr>) model"
    by (elim exE)
  have w: "edit_format (Model_class\<lparr>name := Some model, info := i,
                                   max_chat_history_tokens := k\<rparr>) = ''whole''"
    by (simp add: Model_class_def)
  then have "edit_format (Model_class\<lparr>name := Some model, info := i,
                                   max_chat_history_tokens := k\<rparr>) \<noteq> ''diff''"
    by simp
  from configure_model_settings_no_match [OF nomatch this] o
  have "obj = Model_class\<lparr>name := Some model, info := i, max_chat_history_tokens := k\<rparr>"
    by simp
  with o w show "\<exists>i k. obj = configure_model_settings
                      (Model_class\<lparr>name := Some model, info := i,
                                   max_chat_history_tokens := k\<rparr>) model
                  \<and> edit_format (Model_class\<lparr>name := Some model, info := i,
                                   max_chat_history_tokens := k\<rparr>) = ''whole''
                  \<and> obj = Model_class\<lparr>name := Some model, info := i,
                                   max_chat_history_tokens := k\<rparr>"
    by (intro exI [of _ i] exI [of _ k] conjI)
next
  assume m: "Model_init L D model weak rmi ve st = (Inr a, st')"
  from Model_init_Inr_obj [OF m] obtain obj st1 wn wm where
    p: "init_prelude L D model rmi ve st = (Inr obj, st1)"
    and h: "heap st' ! a = obj\<lparr>weak_model_name := wn, weak_model := wm\<rparr>" .
  from init_prelude_obj(3) [OF p] obtain i k where
    o: "obj = configure_model_settings
            (Model_class\<lparr>name := Some model, info := i, max_chat_history_tokens := k\<rparr>) model"
    by (elim exE)
  have "edit_format (Model_class\<lparr>name := Some model, info := i,
                                   max_chat_history_tokens := k\<rparr>) \<noteq> ''diff''"
    by (simp add: Model_class_def)
  from configure_model_settings_no_match [OF nomatch this] o
  have "obj = Model_class\<lparr>name := Some model, info := i, max_chat_history_tokens := k\<rparr>"
    by simp
  with h show "edit_format (heap st' ! a) = ''whole'' \<and> use_repo_map (heap st' ! a) = False"
    by (simp add: Model_class_def)
qed

theorem default_rule_never_fires_witness:
  "find (\<lambda>ms. ''gpt-3.5-turbo'' = ms_name ms) MODEL_SETTINGS = None
   \<and> \<not> rule2 ''gpt-3.5-turbo'' \<and> \<not> rule3 ''gpt-3.5-turbo'' \<and> \<not> rule4 ''gpt-3.5-turbo''
   \<and> fst (Model_init example_litellm example_difflib ''gpt-3.5-turbo'' WeakNone True True
        empty_state) = Inr 0
   \<and> edit_format (heap (snd (Model_init example_litellm example_difflib ''gpt-3.5-turbo''
        WeakNone True True empty_state)) ! 0) = ''whole''
   \<and> use_repo_map (heap (snd (Model_init example_litellm example_difflib ''gpt-3.5-turbo''
        WeakNone True True empty_state)) ! 0) = False"
proof -
  have a: "find (\<lambda>ms. ''gpt-3.5-turbo'' = ms_name ms) MODEL_SETTINGS = None"
    by (simp add: MODEL_SETTINGS_def)
  have b: "\<not> rule2 ''gpt-3.5-turbo''" "\<not> rule3 ''gpt-3.5-turbo''" "\<not> rule4 ''gpt-3.5-turbo''"
    by (simp_all add: rule2_def rule3_def rule4_def sublist_code prefix_code)
  have f: "fst (Model_init example_litellm example_difflib ''gpt-3.5-turbo'' WeakNone True True
        empty_state) = Inr 0"
    by (simp add: model_eval example_eval)
  then have m: "Model_init example_litellm example_difflib ''gpt-3.5-turbo'' WeakNone True True
             empty_state
           = (Inr 0, snd (Model_init example_litellm example_difflib ''gpt-3.5-turbo'' WeakNone
                True True empty_state))"
    by (simp add: prod_eq_iff)
  from default_rule_never_fires [OF a b, of example_litellm example_difflib True True
      empty_state _ _ WeakNone 0
      "snd (Model_init example_litellm example_difflib ''gpt-3.5-turbo'' WeakNone
                True True empty_state)"] m a b f
  show ?thesis by blast
qed

section \<open>Weak model resolution\<close>

lemma example_prelude_gpt4:
  "init_prelude example_litellm example_difflib ''gpt-4-0613'' True True empty_state =
     (Inr \<lparr>name = Some ''gpt-4-0613'', edit_format = ''diff'', use_repo_map = True,
           send_undo_reply = True, accepts_images = False,
           weak_model_name = Some ''gpt-3.5-turbo'', max_chat_history_tokens = 1024,
           weak_model = None, info = [''max_input_tokens'' \<mapsto> PyInt 8192]\<rparr>,
      \<lparr>heap = [Model_class\<lparr>name := Some ''gpt-4-0613''\<rparr>], stdout = []\<rparr>)"
  by (simp add: init_prelude_def model_eval example_eval)

lemma example_prelude_gpt35:
  "init_prelude example_litellm example_difflib ''gpt-3.5-turbo'' True True empty_state =
     (Inr \<lparr>name = Some ''gpt-3.5-turbo'', edit_format = ''whole'', use_repo_map = False,
           send_undo_reply = False, accepts_images = False,
           weak_model_name = None, max_chat_history_tokens = 1024,
           weak_model = None, info = [''max_input_tokens'' \<mapsto> PyInt 16385]\<rparr>,
      \<lparr>heap = [Model_class\<lparr>name := Some ''gpt-3.5-turbo''\<rparr>], stdout = []\<rparr>)"
  by (simp add: init_prelude_def model_eval example_eval)

text \<open>
  C4. After the first part of the constructor has produced the instance \<open>obj\<close>: with
  \<^verbatim>\<open>weak_model=False\<close> the new model has no weak model name (and no weak model). Otherwise
  a supplied non-empty name replaces the preset weak model name; a supplied empty string is
  false as a condition and leaves the preset, like \<^verbatim>\<open>None\<close>. When the resulting name is
  \<^verbatim>\<open>None\<close>, empty or the model's own name, the weak model of the new instance is the
  address of the instance itself and no second instance is allocated. Otherwise the
  constructor is called for that name with \<^verbatim>\<open>weak_model=False\<close> and the same
  \<^verbatim>\<open>require_model_info\<close>: its error is the error of the whole construction, and its result
  is the weak model, an instance at another address.
\<close>

theorem weak_model_resolution:
  assumes p: "init_prelude L D model rmi ve st = (Inr obj, st1)"
  shows
    "if weak = WeakFalse then
       \<exists>st'. Model_init L D model weak rmi ve st = (Inr (length (heap st)), st')
          \<and> weak_model_name (heap st' ! length (heap st)) = None
          \<and> weak_model (heap st' ! length (heap st)) = None
     else if overridden_weak_model_name weak (weak_model_name obj) = None
            \<or> overridden_weak_model_name weak (weak_model_name obj) = Some []
            \<or> overridden_weak_model_name weak (weak_model_name obj) = Some model then
       \<exists>st'. Model_init L D model weak rmi ve st = (Inr (length (heap st)), st')
          \<and> weak_model_name (heap st' ! length (heap st))
              = overridden_weak_model_name weak (weak_model_name obj)
          \<and> weak_model (heap st' ! length (heap st)) = Some (length (heap st))
          \<and> length (heap st') = Suc (length (heap st))
     else
       \<exists>w. overridden_weak_model_name weak (weak_model_name obj) = Some w
          \<and> (case Model_init L D w WeakFalse rmi True st1 of
                (Inl err, st2) \<Rightarrow> Model_init L D model weak rmi ve st = (Inl err, st2)
              | (Inr r, st2) \<Rightarrow>
                  r \<noteq> length (heap st)
                  \<and> (\<exists>st'. Model_init L D model weak rmi ve st = (Inr (length (heap st)), st')
                        \<and> weak_model_name (heap st' ! length (heap st)) = Some w
                        \<and> weak_model (heap st' ! length (heap st)) = Some r
                        \<and> heap st' ! r = heap st2 ! r))"
proof -
  have wm: "weak_model obj = None"
    using init_prelude_obj [OF p] by simp
  let ?wn = "overridden_weak_model_name weak (weak_model_name obj)"
  let ?self = "length (heap st)"
  show ?thesis
  proof (cases "weak = WeakFalse")
    case True
    from Model_init_false_case [OF p] obtain st' where
      a: "Model_init L D model WeakFalse rmi ve st = (Inr ?self, st')"
      and b: "heap st' ! ?self = obj\<lparr>weak_model_name := None\<rparr>" .
    have "\<exists>st'. Model_init L D model weak rmi ve st = (Inr ?self, st')
            \<and> weak_model_name (heap st' ! ?self) = None
            \<and> weak_model (heap st' ! ?self) = None"
    proof (intro exI conjI)
      show "Model_init L D model weak rmi ve st = (Inr ?self, st')" unfolding True by (rule a)
      show "weak_model_name (heap st' ! ?self) = None" unfolding b by simp
      show "weak_model (heap st' ! ?self) = None" unfolding b using wm by simp
    qed
    then show ?thesis unfolding if_P [OF True] .
  next
    case False
    show ?thesis
    proof (cases "?wn = None \<or> ?wn = Some [] \<or> ?wn = Some model")
      case True
      from Model_init_self_case [OF p False True] obtain st' where
        a: "Model_init L D model weak rmi ve st = (Inr ?self, st')"
        and b: "heap st' ! ?self = obj\<lparr>weak_model_name := ?wn, weak_model := Some ?self\<rparr>"
        and c: "length (heap st') = Suc ?self" .
      have "\<exists>st'. Model_init L D model weak rmi ve st = (Inr ?self, st')
              \<and> weak_model_name (heap st' ! ?self) = ?wn
              \<and> weak_model (heap st' ! ?self) = Some ?self
              \<and> length (heap st') = Suc ?self"
      proof (intro exI conjI)
        show "Model_init L D model weak rmi ve st = (Inr ?self, st')" by (rule a)
        show "weak_model_name (heap st' ! ?self) = ?wn" unfolding b by simp
        show "weak_model (heap st' ! ?self) = Some ?self" unfolding b by simp
        show "length (heap st') = Suc ?self" by (rule c)
      qed
      then show ?thesis unfolding if_not_P [OF False] if_P [OF True] .
    next
      case nself: False
      from Model_init_distinct_case [OF p False nself] obtain w where w: "?wn = Some w"
        by this
      from nself w have wne: "w \<noteq> []" and wnm: "w \<noteq> model" by simp_all
      obtain r2 s2 where i: "Model_init L D w WeakFalse rmi True st1 = (r2, s2)"
        by (cases "Model_init L D w WeakFalse rmi True st1")
      have "case Model_init L D w WeakFalse rmi True st1 of
                (Inl err, st2) \<Rightarrow> Model_init L D model weak rmi ve st = (Inl err, st2)
              | (Inr r, st2) \<Rightarrow>
                  r \<noteq> ?self
                  \<and> (\<exists>st'. Model_init L D model weak rmi ve st = (Inr ?self, st')
                        \<and> weak_model_name (heap st' ! ?self) = Some w
                        \<and> weak_model (heap st' ! ?self) = Some r
                        \<and> heap st' ! r = heap st2 ! r)"
      proof (cases r2)
        case (Inl err)
        from Model_init_distinct_Inl [OF p False w wne wnm i [unfolded Inl]]
        show ?thesis unfolding i Inl prod.case sum.case .
      next
        case (Inr r)
        from Model_init_distinct_Inr [OF p False w wne wnm i [unfolded Inr]] obtain st' where
          r: "r = Suc ?self"
          and a: "Model_init L D model weak rmi ve st = (Inr ?self, st')"
          and b: "heap st' ! ?self = obj\<lparr>weak_model_name := Some w, weak_model := Some r\<rparr>"
          and c: "heap st' ! r = heap s2 ! r" .
        have "r \<noteq> ?self
              \<and> (\<exists>st'. Model_init L D model weak rmi ve st = (Inr ?self, st')
                    \<and> weak_model_name (heap st' ! ?self) = Some w
                    \<and> weak_model (heap st' ! ?self) = Some r
                    \<and> heap st' ! r = heap s2 ! r)"
        proof (intro exI conjI)
          show "r \<noteq> ?self" unfolding r by simp
          show "Model_init L D model weak rmi ve st = (Inr ?self, st')" by (rule a)
          show "weak_model_name (heap st' ! ?self) = Some w" unfolding b by simp
          show "weak_model (heap st' ! ?self) = Some r" unfolding b by simp
          show "heap st' ! r = heap s2 ! r" by (rule c)
        qed
        then show ?thesis unfolding i Inr prod.case sum.case .
      qed
      with w have "\<exists>w. ?wn = Some w
          \<and> (case Model_init L D w WeakFalse rmi True st1 of
                (Inl err, st2) \<Rightarrow> Model_init L D model weak rmi ve st = (Inl err, st2)
              | (Inr r, st2) \<Rightarrow>
                  r \<noteq> ?self
                  \<and> (\<exists>st'. Model_init L D model weak rmi ve st = (Inr ?self, st')
                        \<and> weak_model_name (heap st' ! ?self) = Some w
                        \<and> weak_model (heap st' ! ?self) = Some r
                        \<and> heap st' ! r = heap st2 ! r))"
        by (intro exI conjI)
      then show ?thesis unfolding if_not_P [OF False] if_not_P [OF nself] .
    qed
  qed
qed

theorem weak_model_resolution_witness:
  "(\<exists>st'. Model_init example_litellm example_difflib ''gpt-4-0613'' WeakFalse True True
            empty_state = (Inr 0, st')
        \<and> weak_model_name (heap st' ! 0) = None \<and> weak_model (heap st' ! 0) = None)
   \<and> (\<exists>st'. Model_init example_litellm example_difflib ''gpt-3.5-turbo'' WeakNone True True
            empty_state = (Inr 0, st')
        \<and> weak_model_name (heap st' ! 0) = None \<and> weak_model (heap st' ! 0) = Some 0
        \<and> length (heap st') = 1)
   \<and> (\<exists>st'. Model_init example_litellm example_difflib ''gpt-4-0613'' WeakNone True True
            empty_state = (Inr 0, st')
        \<and> weak_model_name (heap st' ! 0) = Some ''gpt-3.5-turbo''
        \<and> weak_model (heap st' ! 0) = Some 1)"
proof (intro conjI)
  show "\<exists>st'. Model_init example_litellm example_difflib ''gpt-4-0613'' WeakFalse True True
            empty_state = (Inr 0, st')
        \<and> weak_model_name (heap st' ! 0) = None \<and> weak_model (heap st' ! 0) = None"
    using weak_model_resolution [OF example_prelude_gpt4, of WeakFalse]
    by (simp add: empty_state_def)
  show "\<exists>st'. Model_init example_litellm example_difflib ''gpt-3.5-turbo'' WeakNone True True
            empty_state = (Inr 0, st')
        \<and> weak_model_name (heap st' ! 0) = None \<and> weak_model (heap st' ! 0) = Some 0
        \<and> length (heap st') = 1"
    using weak_model_resolution [OF example_prelude_gpt35, of WeakNone]
    by (simp add: empty_state_def overridden_weak_model_name_def)
  have inner: "Model_init example_litellm example_difflib ''gpt-3.5-turbo'' WeakFalse True True
          \<lparr>heap = [Model_class\<lparr>name := Some ''gpt-4-0613''\<rparr>], stdout = []\<rparr>
        = (Inr 1, \<lparr>heap = [Model_class\<lparr>name := Some ''gpt-4-0613''\<rparr>,
              \<lparr>name = Some ''gpt-3.5-turbo'', edit_format = ''whole'', use_repo_map = False,
               send_undo_reply = False, accepts_images = False,
               weak_model_name = None, max_chat_history_tokens = 1024,
               weak_model = None, info = [''max_input_tokens'' \<mapsto> PyInt 16385]\<rparr>],
             stdout = []\<rparr>)"
    by (simp add: model_eval example_eval)
  show "\<exists>st'. Model_init example_litellm example_difflib ''gpt-4-0613'' WeakNone True True
            empty_state = (Inr 0, st')
        \<and> weak_model_name (heap st' ! 0) = Some ''gpt-3.5-turbo''
        \<and> weak_model (heap st' ! 0) = Some 1"
    using weak_model_resolution [OF example_prelude_gpt4, of WeakNone]
    by (simp add: empty_state_def overridden_weak_model_name_def inner) blast
qed

text \<open>
  The claim as worded lets every supplied name override and an empty name refer to the model
  itself. \<^verbatim>\<open>Model("gpt-4-0613", weak_model="")\<close> does neither: the empty string does not
  pass \<^verbatim>\<open>if provided_weak_model_name:\<close>, the preset \<^verbatim>\<open>gpt-3.5-turbo\<close> stays, and a second
  instance is constructed for it.
\<close>

theorem weak_model_empty_name_counterexample:
  "fst (Model_init example_litellm example_difflib ''gpt-4-0613'' (WeakName '''') True True
         empty_state) = Inr 0
   \<and> weak_model_name (heap (snd (Model_init example_litellm example_difflib ''gpt-4-0613''
         (WeakName '''') True True empty_state)) ! 0) = Some ''gpt-3.5-turbo''
   \<and> weak_model (heap (snd (Model_init example_litellm example_difflib ''gpt-4-0613''
         (WeakName '''') True True empty_state)) ! 0) = Some 1
   \<and> weak_model (heap (snd (Model_init example_litellm example_difflib ''gpt-4-0613''
         (WeakName '''') True True empty_state)) ! 0) \<noteq> Some 0
   \<and> length (heap (snd (Model_init example_litellm example_difflib ''gpt-4-0613''
         (WeakName '''') True True empty_state))) = 2"
  by (simp add: model_eval example_eval)

text \<open>
  C5. When a constructed model \<open>a\<close> has a weak model \<open>b\<close> other than itself, \<open>b\<close> has no
  weak model and no weak model name, and the construction has allocated exactly two
  instances: the recursion is one level deep.
\<close>

theorem weak_model_depth_one:
  assumes m: "Model_init L D model weak rmi ve st = (Inr a, st')"
    and wb: "weak_model (heap st' ! a) = Some b" and ne: "b \<noteq> a"
  shows "weak_model (heap st' ! b) = None \<and> weak_model_name (heap st' ! b) = None
         \<and> length (heap st') = length (heap st) + 2"
proof -
  let ?self = "length (heap st)"
  obtain r1 st1 where p0: "init_prelude L D model rmi ve st = (r1, st1)"
    by (cases "init_prelude L D model rmi ve st")
  have "\<exists>obj. r1 = Inr obj"
  proof (cases r1)
    case (Inl err)
    from Model_init_Inl_heap [OF p0 [unfolded Inl], of weak] m show ?thesis by simp
  next
    case (Inr obj)
    then show ?thesis by simp
  qed
  then obtain obj where p: "init_prelude L D model rmi ve st = (Inr obj, st1)"
    using p0 by (elim exE) simp
  have wm: "weak_model obj = None"
    using init_prelude_obj [OF p] by simp
  let ?wn = "overridden_weak_model_name weak (weak_model_name obj)"
  have notfalse: "weak \<noteq> WeakFalse"
  proof
    assume f: "weak = WeakFalse"
    from Model_init_false_case [OF p] obtain st'' where
      a: "Model_init L D model WeakFalse rmi ve st = (Inr ?self, st'')"
      and b: "heap st'' ! ?self = obj\<lparr>weak_model_name := None\<rparr>" .
    from a m f have "a = ?self" and "st'' = st'" by simp_all
    with b wb wm show False by simp
  qed
  have notself: "\<not> (?wn = None \<or> ?wn = Some [] \<or> ?wn = Some model)"
  proof
    assume s: "?wn = None \<or> ?wn = Some [] \<or> ?wn = Some model"
    from Model_init_self_case [OF p notfalse s] obtain st'' where
      a: "Model_init L D model weak rmi ve st = (Inr ?self, st'')"
      and b: "heap st'' ! ?self = obj\<lparr>weak_model_name := ?wn, weak_model := Some ?self\<rparr>" .
    from a m have "a = ?self" and "st'' = st'" by simp_all
    with b wb ne show False by simp
  qed
  from Model_init_distinct_case [OF p notfalse notself] obtain w where w: "?wn = Some w"
    by this
  from notself w have wne: "w \<noteq> []" and wnm: "w \<noteq> model" by simp_all
  obtain r2 s2 where i: "Model_init L D w WeakFalse rmi True st1 = (r2, s2)"
    by (cases "Model_init L D w WeakFalse rmi True st1")
  show ?thesis
  proof (cases r2)
    case (Inl err)
    from Model_init_distinct_Inl [OF p notfalse w wne wnm i [unfolded Inl]] m
    show ?thesis by simp
  next
    case (Inr r)
    from Model_init_distinct_Inr [OF p notfalse w wne wnm i [unfolded Inr]] obtain st'' where
      a: "Model_init L D model weak rmi ve st = (Inr ?self, st'')"
      and b: "heap st'' ! ?self = obj\<lparr>weak_model_name := Some w, weak_model := Some r\<rparr>"
      and c: "heap st'' ! r = heap s2 ! r"
      and d: "length (heap st'') = ?self + 2" .
    from a m have e: "a = ?self" "st'' = st'" by simp_all
    with b wb have br: "b = r" by simp
    from Model_init_WeakFalse_heap(3) [OF i Inr]
    have "weak_model (heap s2 ! r) = None" and "weak_model_name (heap s2 ! r) = None"
      by blast+
    with c d e br show ?thesis by simp
  qed
qed

lemma example_gpt4_constructed:
  "Model_init example_litellm example_difflib ''gpt-4-0613'' WeakNone True True empty_state =
     (Inr 0,
      \<lparr>heap = [\<lparr>name = Some ''gpt-4-0613'', edit_format = ''diff'', use_repo_map = True,
                send_undo_reply = True, accepts_images = False,
                weak_model_name = Some ''gpt-3.5-turbo'', max_chat_history_tokens = 1024,
                weak_model = Some 1, info = [''max_input_tokens'' \<mapsto> PyInt 8192]\<rparr>,
               \<lparr>name = Some ''gpt-3.5-turbo'', edit_format = ''whole'', use_repo_map = False,
                send_undo_reply = False, accepts_images = False,
                weak_model_name = None, max_chat_history_tokens = 1024,
                weak_model = None, info = [''max_input_tokens'' \<mapsto> PyInt 16385]\<rparr>],
        stdout = []\<rparr>)"
  by (simp add: model_eval example_eval)

theorem weak_model_depth_one_witness:
  "weak_model (heap (snd (Model_init example_litellm example_difflib ''gpt-4-0613'' WeakNone
       True True empty_state)) ! 0) = Some 1
   \<and> weak_model (heap (snd (Model_init example_litellm example_difflib ''gpt-4-0613'' WeakNone
       True True empty_state)) ! 1) = None
   \<and> weak_model_name (heap (snd (Model_init example_litellm example_difflib ''gpt-4-0613''
       WeakNone True True empty_state)) ! 1) = None
   \<and> length (heap (snd (Model_init example_litellm example_difflib ''gpt-4-0613'' WeakNone
       True True empty_state))) = length (heap empty_state) + 2"
proof -
  have w: "weak_model (heap (snd (Model_init example_litellm example_difflib ''gpt-4-0613''
       WeakNone True True empty_state)) ! 0) = Some 1"
    by (simp add: example_gpt4_constructed)
  have m: "Model_init example_litellm example_difflib ''gpt-4-0613'' WeakNone True True
             empty_state
           = (Inr 0, snd (Model_init example_litellm example_difflib ''gpt-4-0613'' WeakNone
                True True empty_state))"
    by (simp add: example_gpt4_constructed)
  have n: "(1::nat) \<noteq> 0" by simp
  from weak_model_depth_one [OF m w n] w show ?thesis by simp
qed

section \<open>Errors of the constructor\<close>

lemma environment_error_raised:
  assumes "missing_keys (validate_environment L model) \<noteq> []" and "ve"
  shows "fst (Model_init L D model weak rmi ve st)
           = Inl (ModelEnvironmentError
               (environment_error_message model (missing_keys (validate_environment L model))))"
proof -
  from assms have "\<exists>st1. init_prelude L D model rmi ve st
      = (Inl (ModelEnvironmentError
           (environment_error_message model (missing_keys (validate_environment L model)))), st1)"
    by (simp add: init_prelude_def Let_def)
  then obtain st1 where "init_prelude L D model rmi ve st
      = (Inl (ModelEnvironmentError
           (environment_error_message model (missing_keys (validate_environment L model)))), st1)"
    by (elim exE)
  from Model_init_Inl_heap [OF this, of weak] show ?thesis by simp
qed

lemma environment_error_message_keys:
  "environment_error_message model keys =
     ''To use model '' @ model @ '', please set these environment variables:''
       @ concat (map (\<lambda>key. ''- '' @ key) keys)"
  by (simp add: environment_error_message_def)

text \<open>
  C6. The claim is that construction raises \<^verbatim>\<open>ModelEnvironmentError\<close> exactly when
  \<^verbatim>\<open>validate_environment\<close> is true and the validator reports a missing key. With no API key
  set, \<^verbatim>\<open>Model("gpt-4-0613", validate_environment=False)\<close> passes its own check, takes the
  weak model name \<^verbatim>\<open>gpt-3.5-turbo\<close> from its settings and constructs that model with
  \<^verbatim>\<open>validate_environment\<close> at its default \<^verbatim>\<open>True\<close>: the error is raised for the weak model
  and leaves the outer constructor.
\<close>

theorem environment_error_without_validation:
  "fst (Model_init example_litellm_no_keys example_difflib ''gpt-4-0613'' WeakNone True False
         empty_state)
     = Inl (ModelEnvironmentError
         ''To use model gpt-3.5-turbo, please set these environment variables:- OPENAI_API_KEY'')"
  by (simp add: model_eval example_eval)

lemma init_prelude_no_info:
  assumes "get_model_info L model = Inl e"
    and "\<not> (missing_keys (validate_environment L model) \<noteq> [] \<and> ve)"
  shows "rmi \<Longrightarrow> \<exists>st1. init_prelude L D model rmi ve st
                   = (Inl (NoModelInfo (check_model_name L D model)), st1)"
    and "\<not> rmi \<Longrightarrow> \<exists>obj st1. init_prelude L D model rmi ve st = (Inr obj, st1)
                   \<and> info obj = Map.empty"
  using assms by (auto simp: init_prelude_def Let_def py_less_int_def)

text \<open>
  C7. When \<^verbatim>\<open>litellm.get_model_info\<close> raises (and the environment check has let the
  constructor reach the call): with \<^verbatim>\<open>require_model_info\<close> the construction fails with
  \<^verbatim>\<open>NoModelInfo\<close>, whose text is that of \<^verbatim>\<open>check_model_name\<close>; without it the first part of
  the constructor completes with the empty mapping as \<^verbatim>\<open>info\<close>, and a model that is
  constructed has the empty mapping as \<^verbatim>\<open>info\<close>. The provider's exception itself is never
  the result.
\<close>

theorem model_info_exception_caught:
  assumes gmi: "get_model_info L model = Inl e"
    and env: "\<not> (missing_keys (validate_environment L model) \<noteq> [] \<and> ve)"
  shows "if rmi then
           fst (Model_init L D model weak rmi ve st)
             = Inl (NoModelInfo (check_model_name L D model))
         else
           (\<exists>obj st1. init_prelude L D model rmi ve st = (Inr obj, st1) \<and> info obj = Map.empty)
           \<and> (\<forall>a st'. Model_init L D model weak rmi ve st = (Inr a, st')
                  \<longrightarrow> info (heap st' ! a) = Map.empty)"
proof (cases rmi)
  case True
  from init_prelude_no_info(1) [OF gmi env True, where D = D and st = st] obtain st1 where
    "init_prelude L D model rmi ve st = (Inl (NoModelInfo (check_model_name L D model)), st1)"
    by (elim exE)
  from Model_init_Inl_heap [OF this, of weak] True show ?thesis by simp
next
  case False
  from init_prelude_no_info(2) [OF gmi env False, where D = D and st = st] obtain obj st1 where
    p: "init_prelude L D model rmi ve st = (Inr obj, st1)" and e: "info obj = Map.empty"
    by (elim exE conjE)
  have "info (heap st' ! a) = Map.empty"
    if m: "Model_init L D model weak rmi ve st = (Inr a, st')" for a st'
  proof -
    from Model_init_Inr_obj [OF m] obtain obj' st1' wn wm where
      "init_prelude L D model rmi ve st = (Inr obj', st1')"
      and h: "heap st' ! a = obj'\<lparr>weak_model_name := wn, weak_model := wm\<rparr>" .
    with p have "obj' = obj" by simp
    with h e show ?thesis by simp
  qed
  with p e False show ?thesis by auto
qed

theorem model_info_exception_caught_witness:
  "get_model_info example_litellm ''my-llm'' = Inl ''This model is not mapped yet''
   \<and> missing_keys (validate_environment example_litellm ''my-llm'') = []
   \<and> fst (Model_init example_litellm example_difflib ''my-llm'' WeakNone True True empty_state)
       = Inl (NoModelInfo ''Unknown model my-llm'')
   \<and> fst (Model_init example_litellm example_difflib ''my-llm'' WeakNone False True empty_state)
       = Inr 0
   \<and> info (heap (snd (Model_init example_litellm example_difflib ''my-llm'' WeakNone False True
        empty_state)) ! 0) = Map.empty"
proof -
  have g: "get_model_info example_litellm ''my-llm'' = Inl ''This model is not mapped yet''"
    by (simp add: example_eval)
  have k: "missing_keys (validate_environment example_litellm ''my-llm'') = []"
    by (simp add: example_eval)
  then have e: "\<not> (missing_keys (validate_environment example_litellm ''my-llm'') \<noteq> [] \<and> True)"
    by simp
  have c: "check_model_name example_litellm example_difflib ''my-llm'' = ''Unknown model my-llm''"
    by (simp add: example_eval sublist_code prefix_code float_eval)
  have f: "fst (Model_init example_litellm example_difflib ''my-llm'' WeakNone False True
        empty_state) = Inr 0"
    by (simp add: model_eval example_eval)
  then have m: "Model_init example_litellm example_difflib ''my-llm'' WeakNone False True
             empty_state
           = (Inr 0, snd (Model_init example_litellm example_difflib ''my-llm'' WeakNone
                False True empty_state))"
    by (simp add: prod_eq_iff)
  note t1 = model_info_exception_caught [OF g e, of True example_difflib WeakNone empty_state]
  note t2 = model_info_exception_caught [OF g e, of False example_difflib WeakNone empty_state]
  from t1 c have r1: "fst (Model_init example_litellm example_difflib ''my-llm'' WeakNone True
        True empty_state) = Inl (NoModelInfo ''Unknown model my-llm'')"
    by simp
  from t2 m have r2: "info (heap (snd (Model_init example_litellm example_difflib ''my-llm''
        WeakNone False True empty_state)) ! 0) = Map.empty"
    by simp
  from g k r1 f r2 show ?thesis by blast
qed

section \<open>The fuzzy name matcher\<close>

lemma get_close_matches_length: "length (get_close_matches D word possibilities n cutoff) \<le> n"
  by (simp add: get_close_matches_def Let_def)

lemma get_close_matches_subset:
  "set (get_close_matches D word possibilities n cutoff)
     \<subseteq> {x \<in> set possibilities. cutoff \<le> ratio D x word}"
proof -
  have "set (take n (rev (sort xs))) \<subseteq> set xs" for xs :: "(real \<times> string) list"
    using set_take_subset [of n "rev (sort xs)"] by simp
  then show ?thesis
    by (fastforce simp: get_close_matches_def Let_def)
qed

lemma fst_mono_prod: "p \<le> q \<Longrightarrow> fst p \<le> fst q" for p q :: "real \<times> string"
  by (auto simp: less_eq_prod_def)

lemma sorted_map_fst: "sorted xs \<Longrightarrow> sorted (map fst xs)" for xs :: "(real \<times> string) list"
  by (induction xs) (auto dest: fst_mono_prod)

lemma get_close_matches_descending:
  "sorted_wrt (\<lambda>a b. b \<le> a)
     (map (\<lambda>x. ratio D x word) (get_close_matches D word possibilities n cutoff))"
proof -
  define pairs where "pairs = map (\<lambda>x. (ratio D x word, x))
                     (filter (\<lambda>x. cutoff \<le> real_quick_ratio D x word
                                \<and> cutoff \<le> quick_ratio D x word
                                \<and> cutoff \<le> ratio D x word) possibilities)"
  define T where "T = take n (rev (sort pairs))"
  have "set T \<subseteq> set pairs"
    unfolding T_def using set_take_subset [of n "rev (sort pairs)"] by simp
  then have "\<forall>p \<in> set T. ratio D (snd p) word = fst p"
    unfolding pairs_def by auto
  then have eq: "map (\<lambda>x. ratio D x word) (map snd T) = map fst T"
    by simp
  have "sorted (map fst (sort pairs))" by (rule sorted_map_fst) simp
  then have "sorted_wrt (\<lambda>a b. b \<le> a) (rev (map fst (sort pairs)))"
    by (simp add: sorted_wrt_rev)
  then have "sorted_wrt (\<lambda>a b. b \<le> a) (take n (rev (map fst (sort pairs))))"
    by (rule sorted_wrt_take)
  then have s: "sorted_wrt (\<lambda>a b. b \<le> a) (map fst T)"
    by (simp add: T_def take_map rev_map)
  have g: "get_close_matches D word possibilities n cutoff = map snd T"
    by (simp add: get_close_matches_def Let_def pairs_def T_def)
  show ?thesis unfolding g eq by (rule s)
qed

lemma cutoff_ge: "8 / 10 \<le> rnd53 (8 / 10)"
  by (simp add: float_eval)

text \<open>
  C8. \<^verbatim>\<open>fuzzy_match_models(name)\<close> returns \<open>[name]\<close> when \<open>name\<close> is a catalog key; otherwise
  the catalog keys that contain \<open>name\<close>, in catalog order, when there are any; otherwise at
  most three catalog keys, each with a similarity ratio of at least 0.8, in descending order
  of similarity (possibly none). In particular, \<^verbatim>\<open>gpt4\<close> against a catalog that has the key
  \<^verbatim>\<open>gpt-4\<close> and no key containing \<^verbatim>\<open>gpt4\<close> reaches the cutoff branch and gets at most three
  names.
\<close>

theorem fuzzy_match_models_branches:
  "(query \<in> set (map fst (model_cost L)) \<longrightarrow> fuzzy_match_models L D query = [query])
   \<and> (query \<notin> set (map fst (model_cost L))
        \<and> filter (\<lambda>model. sublist query model) (map fst (model_cost L)) \<noteq> [] \<longrightarrow>
      fuzzy_match_models L D query
        = filter (\<lambda>model. sublist query model) (map fst (model_cost L)))
   \<and> (query \<notin> set (map fst (model_cost L))
        \<and> filter (\<lambda>model. sublist query model) (map fst (model_cost L)) = [] \<longrightarrow>
      length (fuzzy_match_models L D query) \<le> 3
      \<and> set (fuzzy_match_models L D query) \<subseteq> set (map fst (model_cost L))
      \<and> (\<forall>x \<in> set (fuzzy_match_models L D query). 8 / 10 \<le> ratio D x query)
      \<and> sorted_wrt (\<lambda>a b. b \<le> a)
           (map (\<lambda>x. ratio D x query) (fuzzy_match_models L D query)))
   \<and> (''gpt-4'' \<in> set (map fst (model_cost L))
        \<and> (\<forall>k \<in> set (map fst (model_cost L)). \<not> sublist ''gpt4'' k) \<longrightarrow>
      fuzzy_match_models L D ''gpt4''
        = get_close_matches D ''gpt4'' (map fst (model_cost L)) 3 (rnd53 (8 / 10))
      \<and> length (fuzzy_match_models L D ''gpt4'') \<le> 3)"
proof (intro conjI impI)
  assume "query \<in> set (map fst (model_cost L))"
  then show "fuzzy_match_models L D query = [query]"
    by (simp add: fuzzy_match_models_def)
next
  assume "query \<notin> set (map fst (model_cost L))
        \<and> filter (\<lambda>model. sublist query model) (map fst (model_cost L)) \<noteq> []"
  then show "fuzzy_match_models L D query
        = filter (\<lambda>model. sublist query model) (map fst (model_cost L))"
    by (simp add: fuzzy_match_models_def Let_def)
next
  assume a: "query \<notin> set (map fst (model_cost L))
        \<and> filter (\<lambda>model. sublist query model) (map fst (model_cost L)) = []"
  then have eq: "fuzzy_match_models L D query
        = get_close_matches D query (map fst (model_cost L)) 3 (rnd53 (8 / 10))"
    by (simp add: fuzzy_match_models_def Let_def)
  show "length (fuzzy_match_models L D query) \<le> 3"
    unfolding eq by (rule get_close_matches_length)
  show "set (fuzzy_match_models L D query) \<subseteq> set (map fst (model_cost L))"
    unfolding eq using get_close_matches_subset by fastforce
  show "\<forall>x \<in> set (fuzzy_match_models L D query). 8 / 10 \<le> ratio D x query"
  proof
    fix x assume "x \<in> set (fuzzy_match_models L D query)"
    then have "rnd53 (8 / 10) \<le> ratio D x query"
      unfolding eq using get_close_matches_subset by fastforce
    with cutoff_ge show "8 / 10 \<le> ratio D x query" by linarith
  qed
  show "sorted_wrt (\<lambda>a b. b \<le> a)
           (map (\<lambda>x. ratio D x query) (fuzzy_match_models L D query))"
    unfolding eq by (rule get_close_matches_descending)
next
  assume a: "''gpt-4'' \<in> set (map fst (model_cost L))
        \<and> (\<forall>k \<in> set (map fst (model_cost L)). \<not> sublist ''gpt4'' k)"
  then have "\<not> sublist ''gpt4'' ''gpt4'' \<or> ''gpt4'' \<notin> set (map fst (model_cost L))"
    by blast
  then have n: "''gpt4'' \<notin> set (map fst (model_cost L))" by simp
  have f: "filter (\<lambda>model. sublist ''gpt4'' model) (map fst (model_cost L)) = []"
    using a by (simp add: filter_empty_conv)
  from n f show eq: "fuzzy_match_models L D ''gpt4''
        = get_close_matches D ''gpt4'' (map fst (model_cost L)) 3 (rnd53 (8 / 10))"
    by (simp add: fuzzy_match_models_def Let_def)
  show "length (fuzzy_match_models L D ''gpt4'') \<le> 3"
    unfolding eq by (rule get_close_matches_length)
qed

theorem fuzzy_match_models_branches_witness:
  "''gpt-4'' \<in> set (map fst (model_cost example_litellm))
   \<and> fuzzy_match_models example_litellm example_difflib ''gpt-4'' = [''gpt-4'']
   \<and> ''gpt-4-06'' \<notin> set (map fst (model_cost example_litellm))
   \<and> fuzzy_match_models example_litellm example_difflib ''gpt-4-06'' = [''gpt-4-0613'']
   \<and> filter (\<lambda>model. sublist ''gpt4'' model) (map fst (model_cost example_litellm)) = []
   \<and> fuzzy_match_models example_litellm example_difflib ''gpt4'' = [''gpt-4'']
   \<and> length (fuzzy_match_models example_litellm example_difflib ''gpt4'') \<le> 3
   \<and> 8 / 10 \<le> ratio example_difflib ''gpt-4'' ''gpt4''"
proof -
  have k: "map fst (model_cost example_litellm)
            = [''gpt-4'', ''gpt-4-0613'', ''gpt-3.5-turbo'', ''claude-3-opus-20240229'']"
    by (simp add: example_eval)
  have a: "''gpt-4'' \<in> set (map fst (model_cost example_litellm))"
    unfolding k by simp
  have b: "''gpt-4-06'' \<notin> set (map fst (model_cost example_litellm))
        \<and> filter (\<lambda>model. sublist ''gpt-4-06'' model) (map fst (model_cost example_litellm)) \<noteq> []"
    unfolding k by (simp add: sublist_code prefix_code)
  have b': "filter (\<lambda>model. sublist ''gpt-4-06'' model) (map fst (model_cost example_litellm))
             = [''gpt-4-0613'']"
    unfolding k by (simp add: sublist_code prefix_code)
  have c: "\<forall>k \<in> set (map fst (model_cost example_litellm)). \<not> sublist ''gpt4'' k"
    unfolding k by (simp add: sublist_code prefix_code)
  have c': "''gpt4'' \<notin> set (map fst (model_cost example_litellm))
        \<and> filter (\<lambda>model. sublist ''gpt4'' model) (map fst (model_cost example_litellm)) = []"
    unfolding k by (simp add: sublist_code prefix_code)
  have d: "get_close_matches example_difflib ''gpt4''
             (map fst (model_cost example_litellm)) 3 (rnd53 (8 / 10)) = [''gpt-4'']"
    unfolding k
    by (simp add: get_close_matches_def example_difflib_def char_ratio_def float_eval)
  note t1 = fuzzy_match_models_branches [of "''gpt-4''" example_litellm example_difflib]
  note t2 = fuzzy_match_models_branches [of "''gpt-4-06''" example_litellm example_difflib]
  note t3 = fuzzy_match_models_branches [of "''gpt4''" example_litellm example_difflib]
  from t1 a have r1: "fuzzy_match_models example_litellm example_difflib ''gpt-4'' = [''gpt-4'']"
    by blast
  from t2 b b' have r2: "fuzzy_match_models example_litellm example_difflib ''gpt-4-06''
                          = [''gpt-4-0613'']"
    by simp
  from t3 a c d have r3: "fuzzy_match_models example_litellm example_difflib ''gpt4'' = [''gpt-4'']"
    and r4: "length (fuzzy_match_models example_litellm example_difflib ''gpt4'') \<le> 3"
    by simp_all
  from t3 c' r3 have r5: "8 / 10 \<le> ratio example_difflib ''gpt-4'' ''gpt4''"
    by simp
  from a r1 b r2 c' r3 r4 r5 show ?thesis by blast
qed

text \<open>
  The sentence of the specification about \<^verbatim>\<open>gpt4\<close> asks only that the catalog has the key
  \<^verbatim>\<open>gpt-4\<close> and not the key \<^verbatim>\<open>gpt4\<close>. That is not enough: here four keys contain \<^verbatim>\<open>gpt4\<close>,
  and all four are returned by the substring branch.
\<close>

theorem fuzzy_match_models_counterexample:
  "''gpt-4'' \<in> set (map fst (model_cost example_litellm_gpt4_keys))
   \<and> ''gpt4'' \<notin> set (map fst (model_cost example_litellm_gpt4_keys))
   \<and> fuzzy_match_models example_litellm_gpt4_keys example_difflib ''gpt4''
       = [''azure/gpt4'', ''azure/gpt4-32k'', ''custom/gpt4-turbo'', ''custom/gpt4-vision'']
   \<and> \<not> length (fuzzy_match_models example_litellm_gpt4_keys example_difflib ''gpt4'') \<le> 3"
  by (simp add: example_eval sublist_code prefix_code)

end
